theory Spec2Isabelle
  imports Main "HOL-Library.Word"
begin

unbundle bit_operations_syntax

section \<open>The nvhttp pairing server (src/nvhttp.cpp)\<close>

text \<open>
  A shallow embedding of the GameStream pairing and session-control server.
  \<open>std::string\<close> and \<open>std::vector<uint8_t>\<close> are byte strings; every mutable global
  (\<open>map_id_sess\<close>, \<open>client_root\<close>, the OTP variables, the state file) is a field of one
  state record that each operation takes and returns.
\<close>

type_synonym bytes = string

subsection \<open>Client store\<close>

text \<open>\<open>crypto::named_cert_t\<close>: the three fields nvhttp.cpp reads and writes.\<close>

record named_cert_t =
  name :: string
  cert :: string
  uuid :: string

subsection \<open>String helpers of the C++ standard library\<close>

text \<open>\<open>std::string::find(pat)\<close>: position of the first occurrence, \<open>npos\<close> as \<open>None\<close>.\<close>

fun str_find :: "string \<Rightarrow> string \<Rightarrow> nat option" where
  "str_find [] pat = (if pat = [] then Some 0 else None)"
| "str_find (c # cs) pat =
     (if take (length pat) (c # cs) = pat then Some 0
      else map_option Suc (str_find cs pat))"

definition digit_char :: "nat \<Rightarrow> char" where
  "digit_char d = ''0123456789'' ! d"

function to_digits :: "nat \<Rightarrow> string" where
  "to_digits n = (if n < 10 then [digit_char n] else to_digits (n div 10) @ [digit_char (n mod 10)])"
  by pat_completeness auto
termination
  by (relation "measure id") auto

declare to_digits.simps [simp del]

text \<open>\<open>std::to_string(int)\<close>.\<close>

definition to_string :: "int \<Rightarrow> string" where
  "to_string i = (if i < 0 then CHR ''-'' # to_digits (nat (- i)) else to_digits (nat i))"

subsection \<open>\<open>save_state\<close>: the loop that builds \<open>root.named_devices\<close>\<close>

text \<open>
  The three locals of the loop: \<open>unique_certs\<close> (an unordered set, only inserted into and
  tested), \<open>name_counts\<close> (an unordered map read with \<open>operator[]\<close>, so an absent key
  reads 0) and \<open>named_cert_nodes\<close> (the array written to the file, in push order).
\<close>

record save_acc =
  unique_certs :: "string list"
  name_counts :: "string \<Rightarrow> int"
  named_cert_nodes :: "named_cert_t list"

text \<open>"Remove existing pending id if present": cut the name at the first \<open>" ("\<close>.\<close>

definition base_name_of :: "string \<Rightarrow> string" where
  "base_name_of nm = (case str_find nm '' ('' of None \<Rightarrow> nm | Some pos \<Rightarrow> take pos nm)"

definition save_step :: "save_acc \<Rightarrow> named_cert_t \<Rightarrow> save_acc" where
  "save_step acc named_cert_p =
     (if cert named_cert_p \<in> set (unique_certs acc) then acc
      else
        let base_name = base_name_of (name named_cert_p);
            count = name_counts acc base_name;
            final_name = (if count > 0
                          then base_name @ '' ('' @ to_string (count + 1) @ '')''
                          else base_name)
        in \<lparr> unique_certs = cert named_cert_p # unique_certs acc,
             name_counts = (name_counts acc)(base_name := count + 1),
             named_cert_nodes = named_cert_nodes acc @
               [\<lparr> name = final_name, cert = cert named_cert_p, uuid = uuid named_cert_p \<rparr>] \<rparr>)"

definition save_init :: save_acc where
  "save_init = \<lparr> unique_certs = [], name_counts = (\<lambda>_. 0), named_cert_nodes = [] \<rparr>"

text \<open>The array \<open>save_state\<close> writes for the in-memory list \<open>client.named_devices\<close>.\<close>

definition save_named_devices :: "named_cert_t list \<Rightarrow> named_cert_t list" where
  "save_named_devices named_devices = named_cert_nodes (foldl save_step save_init named_devices)"

subsection \<open>What the specification says \<open>save_state\<close> writes\<close>

text \<open>
  Stated from the specification's words, to be compared with the loop above: an entry
  survives when no earlier entry of the list carries its certificate string; survivors
  keep their order; the \<open>j\<close>-th survivor is written under its base name when no earlier
  survivor has that base name, and under \<open>base (k+1)\<close> when \<open>k > 0\<close> earlier survivors do.
  How a base name is obtained from a display name is the parameter \<open>base\<close>.
\<close>

definition spec_survivors :: "named_cert_t list \<Rightarrow> named_cert_t list" where
  "spec_survivors cs =
     map (nth cs) (filter (\<lambda>i. cert (cs ! i) \<notin> set (map cert (take i cs))) [0..<length cs])"

definition spec_earlier_same_base :: "(string \<Rightarrow> string) \<Rightarrow> named_cert_t list \<Rightarrow> nat \<Rightarrow> nat" where
  "spec_earlier_same_base base sv j =
     length (filter (\<lambda>m. base (name m) = base (name (sv ! j))) (take j sv))"

definition spec_written_name :: "(string \<Rightarrow> string) \<Rightarrow> named_cert_t list \<Rightarrow> nat \<Rightarrow> string" where
  "spec_written_name base sv j =
     (let b = base (name (sv ! j)); k = spec_earlier_same_base base sv j
      in if k = 0 then b else b @ '' ('' @ to_string (int k + 1) @ '')'')"

definition spec_saved :: "(string \<Rightarrow> string) \<Rightarrow> named_cert_t list \<Rightarrow> named_cert_t list" where
  "spec_saved base cs =
     (let sv = spec_survivors cs
      in map (\<lambda>j. \<lparr> name = spec_written_name base sv j, cert = cert (sv ! j), uuid = uuid (sv ! j) \<rparr>)
             [0..<length sv])"

text \<open>
  The base name in the specification's words, "stripping any existing \<open>" (...)"\<close> suffix":
  a name that ends in \<open>)\<close> and contains \<open>" ("\<close> is cut where its last \<open>" ("\<close> begins; any
  other name has no such suffix and is its own base name.
\<close>

definition spec_strip_suffix :: "string \<Rightarrow> string" where
  "spec_strip_suffix nm =
     (if nm \<noteq> [] \<and> last nm = CHR '')''
      then (case find (\<lambda>i. take 2 (drop i nm) = '' ('') (rev [0..<length nm]) of
              None \<Rightarrow> nm
            | Some i \<Rightarrow> take i nm)
      else nm)"

text \<open>
  The base name of the amended statement: the name is cut at the first position where
  \<open>" ("\<close> stands, whatever follows; a name without \<open>" ("\<close> is its own base name.
\<close>

definition spec_cut_at_first_paren :: "string \<Rightarrow> string" where
  "spec_cut_at_first_paren nm =
     (case find (\<lambda>i. take 2 (drop i nm) = '' ('') [0..<length nm] of
        None \<Rightarrow> nm
      | Some i \<Rightarrow> take i nm)"

text \<open>The renaming alone, and the number of entries of a list with a given base name.\<close>

definition spec_rename :: "(string \<Rightarrow> string) \<Rightarrow> named_cert_t list \<Rightarrow> named_cert_t list" where
  "spec_rename base sv =
     map (\<lambda>j. \<lparr> name = spec_written_name base sv j, cert = cert (sv ! j), uuid = uuid (sv ! j) \<rparr>)
         [0..<length sv]"

definition count_base :: "(string \<Rightarrow> string) \<Rightarrow> named_cert_t list \<Rightarrow> string \<Rightarrow> nat" where
  "count_base base sv b = length (filter (\<lambda>m. base (name m) = b) sv)"

subsection \<open>Property trees\<close>

text \<open>
  A \<open>boost::property_tree::ptree\<close> as the handlers use it: every \<open>put\<close> names a full path
  from the root, so the tree is the ordered list of (path, value) pairs. \<open>put\<close> overwrites
  the value at an existing path and appends a new one otherwise; \<open>push_back\<close> always
  appends. Integers are stored as their decimal text.
\<close>

type_synonym ptree = "(string \<times> string) list"

fun tree_put :: "ptree \<Rightarrow> string \<Rightarrow> string \<Rightarrow> ptree" where
  "tree_put [] k v = [(k, v)]"
| "tree_put ((k', v') # t) k v =
     (if k' = k then (k, v) # t else (k', v') # tree_put t k v)"

definition tree_push_back :: "ptree \<Rightarrow> string \<Rightarrow> string \<Rightarrow> ptree" where
  "tree_push_back t k v = t @ [(k, v)]"

definition tree_get :: "ptree \<Rightarrow> string \<Rightarrow> string option" where
  "tree_get t k = map_of t k"

text \<open>All values pushed under one path, in order (the \<open>ServerCommand\<close> children).\<close>

definition tree_children :: "ptree \<Rightarrow> string \<Rightarrow> string list" where
  "tree_children t k = map snd (filter (\<lambda>kv. fst kv = k) t)"

subsection \<open>Pairing sessions\<close>

record client_info =
  uniqueID :: string
  client_cert :: string
  client_name :: string

text \<open>
  \<open>util::Either<shared_ptr<HTTP Response>, shared_ptr<HTTPS Response>>\<close>: empty when
  default-constructed, otherwise a left (HTTP) or right (HTTPS) shared pointer, which
  may itself be null. A response object is identified by a number.
\<close>

datatype async_response = Either_empty | Either_left "nat option" | Either_right "nat option"

text \<open>
  \<open>pair_session_t\<close>. \<open>cipher_key\<close> is a \<open>unique_ptr\<close>: \<open>None\<close> is the null pointer.
  \<open>response\<close> and \<open>salt\<close> are the members of \<open>async_insert_pin\<close>.
\<close>

record pair_session_t =
  client :: client_info
  cipher_key :: "bytes option"
  clienthash :: bytes
  serversecret :: bytes
  serverchallenge :: bytes
  response :: async_response
  salt :: string

subsection \<open>The state file\<close>

text \<open>
  The file at \<open>config::nvhttp.file_state\<close>: absent, present but rejected by
  \<open>pt::read_json\<close>, or a JSON document of which the model keeps the \<open>root\<close> subtree:
  \<open>root.uniqueid\<close>, the legacy \<open>root.devices[*].certs[*]\<close> and \<open>root.named_devices\<close>, each
  optional. Entries are taken to carry the fields \<open>load_state\<close> reads.
\<close>

record json_root =
  f_uniqueid :: "string option"
  f_devices :: "string list list option"
  f_named_devices :: "named_cert_t list option"

datatype state_file = No_file | Unreadable | Json json_root

subsection \<open>Process state and environment\<close>

datatype tunnel_t = HTTP | HTTPS

text \<open>
  The globals of the translation unit. \<open>responses\<close> records every body written to a
  response object, in order. \<open>generated\<close> and \<open>rand_calls\<close> count the calls made so far to
  \<open>uuid_util::uuid_t::generate\<close> and \<open>crypto::rand\<close>.
\<close>

record nvhttp_state =
  map_id_sess :: "(string \<times> pair_session_t) list"
  client_root :: "named_cert_t list"
  cert_chain :: "named_cert_t list"
  unique_id :: string
  one_time_pin :: string
  otp_passphrase :: string
  otp_device_name :: string
  otp_creation_time :: int
  file_state :: state_file
  responses :: "(nat \<times> ptree) list"
  generated :: nat
  rand_calls :: nat

text \<open>
  What nvhttp.cpp takes from other translation units: configuration, the server's
  certificate and key, and the functions of crypto.h, utility.h and uuid.h, which are
  parameters of the model. \<open>rand k n\<close> is the result of the \<open>k\<close>-th call \<open>crypto::rand(n)\<close>,
  \<open>generate k\<close> the \<open>k\<close>-th generated UUID string.
\<close>

record env_t =
  enable_pairing :: bool
  FRESH_STATE :: bool
  PIN_STDIN :: bool
  OTP_EXPIRE_DURATION :: int
  servercert :: string
  pkey :: string
  hash :: "bytes \<Rightarrow> bytes"
  from_hex_vec :: "string \<Rightarrow> bytes"
  from_hex_16 :: "string \<Rightarrow> bytes"
  hex_vec :: "bytes \<Rightarrow> string"
  hex :: "bytes \<Rightarrow> string"
  signature_of :: "string \<Rightarrow> bytes"
  sign256 :: "string \<Rightarrow> bytes \<Rightarrow> bytes"
  verify256 :: "string \<Rightarrow> bytes \<Rightarrow> bytes \<Rightarrow> bool"
  ecb_decrypt :: "bytes \<Rightarrow> bytes \<Rightarrow> bytes"
  ecb_encrypt :: "bytes \<Rightarrow> bytes \<Rightarrow> bytes"
  rand :: "nat \<Rightarrow> nat \<Rightarrow> bytes"
  generate :: "nat \<Rightarrow> string"

text \<open>
  One request as a handler sees it: which server it arrived on, the identity of its
  response object, its query string read through \<open>args.find\<close>, and what the process
  observes outside itself while handling it (the steady clock, the next line of standard
  input, whether the state file can be written).
\<close>

record request_t =
  tunnel :: tunnel_t
  resp :: nat
  args :: "string \<Rightarrow> string option"
  now :: int
  stdin_line :: string
  write_ok :: bool

text \<open>
  How a call ends: it returns, it leaves by a C++ exception (\<open>get_arg\<close> throws
  \<open>std::out_of_range(name)\<close>; the value is the state after unwinding), or it executes an
  operation whose behaviour C++ leaves undefined.
\<close>

datatype ub = Deref_end_iterator | Deref_null_cipher_key | Read_past_end | Erase_end_iterator

datatype 'a outcome = Returns 'a | Throws string 'a | Undefined ub

subsection \<open>\<open>std::unordered_map\<close> operations on \<open>map_id_sess\<close>\<close>

text \<open>
  The map is the list of its entries in iteration order, so \<open>std::begin\<close> is the head.
  \<open>emplace\<close> inserts only when the key is absent and leaves an existing entry as it is.
  Where a new entry stands in the iteration order is left open by the standard and
  depends on the library's hashing (libstdc++ links a node in front of its bucket); the
  model puts it last, and no statement below depends on that position.
\<close>

definition map_find :: "(string \<times> 'v) list \<Rightarrow> string \<Rightarrow> 'v option" where
  "map_find m k = map_of m k"

definition map_emplace :: "(string \<times> 'v) list \<Rightarrow> string \<Rightarrow> 'v \<Rightarrow> (string \<times> 'v) list" where
  "map_emplace m k v = (if map_find m k = None then m @ [(k, v)] else m)"

definition map_erase :: "(string \<times> 'v) list \<Rightarrow> string \<Rightarrow> (string \<times> 'v) list" where
  "map_erase m k = filter (\<lambda>kv. fst kv \<noteq> k) m"

text \<open>Writing through a reference to the mapped value of key \<open>k\<close>.\<close>

definition map_assign :: "(string \<times> 'v) list \<Rightarrow> string \<Rightarrow> 'v \<Rightarrow> (string \<times> 'v) list" where
  "map_assign m k v = map (\<lambda>kv. if fst kv = k then (k, v) else kv) m"

definition set_sess :: "string \<Rightarrow> pair_session_t \<Rightarrow> nvhttp_state \<Rightarrow> nvhttp_state" where
  "set_sess k sess s = s\<lparr> map_id_sess := map_assign (map_id_sess s) k sess \<rparr>"

subsection \<open>\<open>save_state\<close>, \<open>load_state\<close>, \<open>add_authorized_client\<close>\<close>

definition gen_uuid :: "env_t \<Rightarrow> nvhttp_state \<Rightarrow> string \<times> nvhttp_state" where
  "gen_uuid E s = (generate E (generated s), s\<lparr> generated := generated s + 1 \<rparr>)"

definition crypto_rand :: "env_t \<Rightarrow> nat \<Rightarrow> nvhttp_state \<Rightarrow> bytes \<times> nvhttp_state" where
  "crypto_rand E n s = (rand E (rand_calls s) n, s\<lparr> rand_calls := rand_calls s + 1 \<rparr>)"

text \<open>
  \<open>save_state\<close>: a read error of an existing file or a write error is logged and
  nothing is written; otherwise \<open>root\<close> is replaced by the server id and the array
  computed by the loop.
\<close>

definition save_state :: "request_t \<Rightarrow> nvhttp_state \<Rightarrow> nvhttp_state" where
  "save_state rq s =
     (if file_state s = Unreadable then s
      else if \<not> write_ok rq then s
      else s\<lparr> file_state := Json \<lparr> f_uniqueid = Some (unique_id s), f_devices = None,
                f_named_devices = Some (save_named_devices (client_root s)) \<rparr> \<rparr>)"

text \<open>The legacy import: one entry with empty name and a generated UUID per certificate.\<close>

fun import_legacy :: "env_t \<Rightarrow> string list \<Rightarrow> nvhttp_state \<Rightarrow> named_cert_t list \<times> nvhttp_state" where
  "import_legacy E [] s = ([], s)"
| "import_legacy E (el # els) s =
     (let (u, s1) = gen_uuid E s;
          (rest, s2) = import_legacy E els s1
      in (\<lparr> name = [], cert = el, uuid = u \<rparr> # rest, s2))"

definition load_state :: "env_t \<Rightarrow> nvhttp_state \<Rightarrow> nvhttp_state" where
  "load_state E s =
     (case file_state s of
        No_file \<Rightarrow> (let (u, s1) = gen_uuid E s in s1\<lparr> unique_id := u \<rparr>)
      | Unreadable \<Rightarrow> s
      | Json root \<Rightarrow>
          (case f_uniqueid root of
             None \<Rightarrow> (let (u, s1) = gen_uuid E s in s1\<lparr> unique_id := u \<rparr>)
           | Some unique_id_p \<Rightarrow>
               let (legacy, s1) = (case f_devices root of
                                     None \<Rightarrow> ([], s)
                                   | Some device_nodes \<Rightarrow> import_legacy E (concat device_nodes) s);
                   named = (case f_named_devices root of None \<Rightarrow> [] | Some els \<Rightarrow> els);
                   named_devices = legacy @ named
               in s1\<lparr> unique_id := unique_id_p, cert_chain := named_devices,
                       client_root := named_devices \<rparr>))"

definition add_authorized_client :: "env_t \<Rightarrow> request_t \<Rightarrow> named_cert_t \<Rightarrow> nvhttp_state \<Rightarrow> nvhttp_state" where
  "add_authorized_client E rq named_cert_p s =
     (let s1 = s\<lparr> client_root := client_root s @ [named_cert_p] \<rparr>
      in if \<not> FRESH_STATE E then load_state E (save_state rq s1) else s1)"

subsection \<open>The handlers of the four pairing phases\<close>

text \<open>A run of \<open>tree.put\<close> calls, in order.\<close>

definition tree_puts :: "ptree \<Rightarrow> (string \<times> string) list \<Rightarrow> ptree" where
  "tree_puts t kvs = foldl (\<lambda>t' kv. tree_put t' (fst kv) (snd kv)) t kvs"

text \<open>
  Modelled from the spec: \<open>crypto::gen_aes_key\<close>, whose definition (crypto.cpp) is not
  among the sources. The specification gives it as the first 16 bytes of the SHA-256 of
  the salt bytes followed by the PIN bytes; \<open>hash\<close> is \<open>crypto::hash\<close>.
\<close>

definition gen_aes_key :: "env_t \<Rightarrow> bytes \<Rightarrow> bytes \<Rightarrow> bytes" where
  "gen_aes_key E salt_bytes pin_bytes = take 16 (hash E (salt_bytes @ pin_bytes))"

text \<open>
  \<open>getservercert(sess, tree, pin)\<close>: the key-derivation step. \<open>sess\<close> is a reference in
  the source; the model returns the session it leaves behind, and the caller stores it.
\<close>

definition getservercert :: "env_t \<Rightarrow> pair_session_t \<Rightarrow> ptree \<Rightarrow> bytes \<Rightarrow> pair_session_t \<times> ptree" where
  "getservercert E sess tree pin_v =
     (if length (salt sess) < 32 then
        (sess, tree_puts tree [(''root.paired'', ''0''),
                               (''root.<xmlattr>.status_code'', ''400''),
                               (''root.<xmlattr>.status_message'', ''Salt too short'')])
      else
        let salt_view = take 32 (salt sess);
            salt_bytes = from_hex_16 E salt_view;
            key = gen_aes_key E salt_bytes pin_v
        in (sess\<lparr> cipher_key := Some key \<rparr>,
            tree_puts tree [(''root.paired'', ''1''),
                            (''root.plaincert'', hex_vec E (servercert E)),
                            (''root.<xmlattr>.status_code'', ''200'')]))"

definition serverchallengeresp ::
  "env_t \<Rightarrow> request_t \<Rightarrow> pair_session_t \<Rightarrow> ptree \<Rightarrow> (pair_session_t \<times> ptree) outcome" where
  "serverchallengeresp E rq sess tree =
     (case args rq ''serverchallengeresp'' of
        None \<Rightarrow> Throws ''serverchallengeresp'' (sess, tree)
      | Some v \<Rightarrow>
          let encrypted_response = from_hex_vec E v in
          (case cipher_key sess of
             None \<Rightarrow> Undefined Deref_null_cipher_key
           | Some key \<Rightarrow>
               let decrypted = ecb_decrypt E key encrypted_response;
                   sess1 = sess\<lparr> clienthash := decrypted \<rparr>;
                   sign = sign256 E (pkey E) (serversecret sess1)
               in Returns (sess1,
                    tree_puts tree [(''root.pairingsecret'', hex_vec E (serversecret sess1 @ sign)),
                                    (''root.paired'', ''1''),
                                    (''root.<xmlattr>.status_code'', ''200'')])))"

definition clientchallenge ::
  "env_t \<Rightarrow> request_t \<Rightarrow> pair_session_t \<Rightarrow> ptree \<Rightarrow> nvhttp_state
     \<Rightarrow> (pair_session_t \<times> ptree \<times> nvhttp_state) outcome" where
  "clientchallenge E rq sess tree s =
     (case args rq ''clientchallenge'' of
        None \<Rightarrow> Throws ''clientchallenge'' (sess, tree, s)
      | Some v \<Rightarrow>
          let challenge = from_hex_vec E v in
          (case cipher_key sess of
             None \<Rightarrow> Undefined Deref_null_cipher_key
           | Some key \<Rightarrow>
               let decrypted = ecb_decrypt E key challenge;
                   sign = signature_of E (servercert E);
                   (serversecret_v, s1) = crypto_rand E 16 s;
                   hash_v = hash E (decrypted @ sign @ serversecret_v);
                   (serverchallenge_v, s2) = crypto_rand E 16 s1;
                   plaintext = hash_v @ serverchallenge_v;
                   encrypted = ecb_encrypt E key plaintext
               in Returns (sess\<lparr> serversecret := serversecret_v, serverchallenge := serverchallenge_v \<rparr>,
                    tree_puts tree [(''root.paired'', ''1''),
                                    (''root.challengeresponse'', hex_vec E encrypted),
                                    (''root.<xmlattr>.status_code'', ''200'')],
                    s2)))"

text \<open>The loop over \<open>named_cert_p->name\<close> in \<open>clientpairingsecret\<close>.\<close>

definition replace_paren :: "char \<Rightarrow> char" where
  "replace_paren c = (if c = CHR ''('' then CHR ''['' else if c = CHR '')'' then CHR '']'' else c)"

text \<open>
  \<open>clientpairingsecret\<close>. \<open>std::memcmp(hash.data(), sess.clienthash.data(), hash.size())\<close>
  compares the first \<open>hash.size()\<close> bytes of both and reads past the end of a shorter
  \<open>clienthash\<close>. On success the session is found by \<open>client.uniqueID\<close> and erased through
  the iterator; on failure it is erased by key.
\<close>

definition clientpairingsecret ::
  "env_t \<Rightarrow> request_t \<Rightarrow> pair_session_t \<Rightarrow> ptree \<Rightarrow> nvhttp_state \<Rightarrow> (ptree \<times> nvhttp_state) outcome" where
  "clientpairingsecret E rq sess tree s =
     (case args rq ''clientpairingsecret'' of
        None \<Rightarrow> Throws ''clientpairingsecret'' (tree, s)
      | Some v \<Rightarrow>
          let pairingsecret = from_hex_vec E v in
          if length pairingsecret \<le> 16 then
            Returns (tree_puts tree [(''root.paired'', ''0''),
                                     (''root.<xmlattr>.status_code'', ''400''),
                                     (''root.<xmlattr>.status_message'', ''Clientpairingsecret too short'')], s)
          else
            let secret = take 16 pairingsecret;
                sign = drop 16 pairingsecret;
                x509_sign = signature_of E (client_cert (client sess));
                data = serverchallenge sess @ x509_sign @ secret;
                hash_v = hash E data
            in if length (clienthash sess) < length hash_v then Undefined Read_past_end
               else if take (length hash_v) (clienthash sess) = hash_v
                       \<and> verify256 E (client_cert (client sess)) secret sign then
                 let tree1 = tree_put tree ''root.paired'' ''1'';
                     (u, s1) = gen_uuid E s;
                     named_cert_p = \<lparr> name = map replace_paren (client_name (client sess)),
                                      cert = client_cert (client sess), uuid = u \<rparr>
                 in (case map_find (map_id_sess s1) (uniqueID (client sess)) of
                       None \<Rightarrow> Undefined Erase_end_iterator
                     | Some _ \<Rightarrow>
                         let s2 = s1\<lparr> map_id_sess := map_erase (map_id_sess s1) (uniqueID (client sess)) \<rparr>;
                             s3 = add_authorized_client E rq named_cert_p s2
                         in Returns (tree_put tree1 ''root.<xmlattr>.status_code'' ''200'', s3))
               else
                 let s1 = s\<lparr> map_id_sess := map_erase (map_id_sess s) (uniqueID (client sess)) \<rparr>;
                     tree1 = tree_put tree ''root.paired'' ''0''
                 in Returns (tree_put tree1 ''root.<xmlattr>.status_code'' ''200'', s1))"

subsection \<open>\<open>pair\<close>\<close>

text \<open>The fail guard of \<open>pair\<close>: on leaving the function the tree is written to the response.\<close>

definition respond :: "request_t \<Rightarrow> ptree \<Rightarrow> nvhttp_state \<Rightarrow> nvhttp_state" where
  "respond rq tree s = s\<lparr> responses := responses s @ [(resp rq, tree)] \<rparr>"

definition clear_otp :: "nvhttp_state \<Rightarrow> nvhttp_state" where
  "clear_otp s = s\<lparr> one_time_pin := [], otp_passphrase := [], otp_device_name := [] \<rparr>"

text \<open>The response pointer of a request, as stored into \<open>async_insert_pin.response\<close>.\<close>

definition as_either :: "request_t \<Rightarrow> async_response" where
  "as_either rq = (case tunnel rq of HTTP \<Rightarrow> Either_left (Some (resp rq))
                                   | HTTPS \<Rightarrow> Either_right (Some (resp rq)))"

text \<open>
  The part of the \<open>getservercert\<close> branch after the salt is stored: \<open>ptr\<close> is the entry
  under \<open>uniqID\<close>, \<open>s\<close> the state holding it.
\<close>

definition pair_after_salt ::
  "env_t \<Rightarrow> request_t \<Rightarrow> string \<Rightarrow> pair_session_t \<Rightarrow> nvhttp_state \<Rightarrow> nvhttp_state outcome" where
  "pair_after_salt E rq uniqID ptr s =
     (case args rq ''otpauth'' of
        Some otpauth \<Rightarrow>
          if one_time_pin s = [] \<or> now rq - otp_creation_time s > OTP_EXPIRE_DURATION E then
            let s1 = clear_otp s;
                tree = tree_puts [] [(''root.<xmlattr>.status_code'', ''503''),
                                     (''root.<xmlattr>.status_message'', ''OTP auth not available.'')];
                (r, s2) = crypto_rand E 16 s1;
                (sess1, tree1) = getservercert E ptr tree r
            in Returns (respond rq tree1 (set_sess uniqID sess1 s2))
          else
            let hash_v = hex E (hash E (one_time_pin s @ salt ptr @ otp_passphrase s)) in
            if hash_v = otpauth then
              let ptr1 = (if otp_device_name s \<noteq> []
                          then ptr\<lparr> client := (client ptr)\<lparr> client_name := otp_device_name s \<rparr> \<rparr>
                          else ptr);
                  (sess1, tree1) = getservercert E ptr1 [] (one_time_pin s)
              in Returns (respond rq tree1 (clear_otp (set_sess uniqID sess1 s)))
            else
              let (r, s2) = crypto_rand E 16 s;
                  (sess1, tree1) = getservercert E ptr [] r
              in Returns (respond rq tree1 (set_sess uniqID sess1 s2))
      | None \<Rightarrow>
          if PIN_STDIN E then
            let (sess1, tree1) = getservercert E ptr [] (stdin_line rq)
            in Returns (respond rq tree1 (set_sess uniqID sess1 s))
          else
            Returns (set_sess uniqID (ptr\<lparr> response := as_either rq \<rparr>) s))"

text \<open>
  The \<open>phrase=getservercert\<close> branch. The three \<open>get_arg\<close> calls without a default throw
  when the parameter is absent; the fail guard then writes the tree built so far.
  \<open>found\<close> is the entry the iterator returned by \<open>emplace\<close> points to: the one already
  stored under the key when there is one, the new session otherwise.
\<close>

definition pair_getservercert ::
  "env_t \<Rightarrow> request_t \<Rightarrow> string \<Rightarrow> nvhttp_state \<Rightarrow> nvhttp_state outcome" where
  "pair_getservercert E rq uniqID s =
     (case args rq ''devicename'' of
        None \<Rightarrow> Throws ''devicename'' (respond rq [] s)
      | Some dn \<Rightarrow>
          let deviceName = (if dn = ''roth'' then ''Legacy Moonlight Client'' else dn) in
          (case args rq ''clientcert'' of
             None \<Rightarrow> Throws ''clientcert'' (respond rq [] s)
           | Some cc \<Rightarrow>
               let sess = \<lparr> client = \<lparr> uniqueID = uniqID, client_cert = from_hex_vec E cc,
                                       client_name = deviceName \<rparr>,
                            cipher_key = None, clienthash = [], serversecret = [],
                            serverchallenge = [], response = Either_empty, salt = [] \<rparr>;
                   s1 = s\<lparr> map_id_sess := map_emplace (map_id_sess s) uniqID sess \<rparr>
               in (case args rq ''salt'' of
                     None \<Rightarrow> Throws ''salt'' (respond rq [] s1)
                   | Some salt_v \<Rightarrow>
                       let found = (case map_find (map_id_sess s) uniqID of
                                      None \<Rightarrow> sess
                                    | Some existing \<Rightarrow> existing);
                           ptr = found\<lparr> salt := salt_v \<rparr>
                       in pair_after_salt E rq uniqID ptr (set_sess uniqID ptr s1))))"

definition pair :: "env_t \<Rightarrow> request_t \<Rightarrow> nvhttp_state \<Rightarrow> nvhttp_state outcome" where
  "pair E rq s =
     (if \<not> enable_pairing E then
        Returns (respond rq (tree_puts [] [(''root.<xmlattr>.status_code'', ''403''),
                   (''root.<xmlattr>.status_message'', ''Pairing is disabled for this instance'')]) s)
      else case args rq ''uniqueid'' of
        None \<Rightarrow>
          Returns (respond rq (tree_puts [] [(''root.<xmlattr>.status_code'', ''400''),
                     (''root.<xmlattr>.status_message'', ''Missing uniqueid parameter'')]) s)
      | Some uniqID \<Rightarrow>
          let sess_it = map_find (map_id_sess s) uniqID in
          (case args rq ''phrase'' of
             Some phrase \<Rightarrow>
               if phrase = ''getservercert'' then pair_getservercert E rq uniqID s
               else if phrase = ''pairchallenge'' then
                 Returns (respond rq (tree_puts [] [(''root.paired'', ''1''),
                            (''root.<xmlattr>.status_code'', ''200'')]) s)
               else Returns (respond rq [] s)
           | None \<Rightarrow>
               if args rq ''clientchallenge'' \<noteq> None then
                 (case sess_it of
                    None \<Rightarrow> Undefined Deref_end_iterator
                  | Some sess \<Rightarrow>
                      (case clientchallenge E rq sess [] s of
                         Returns (sess1, tree1, s1) \<Rightarrow> Returns (respond rq tree1 (set_sess uniqID sess1 s1))
                       | Throws n (sess1, tree1, s1) \<Rightarrow> Throws n (respond rq tree1 (set_sess uniqID sess1 s1))
                       | Undefined u \<Rightarrow> Undefined u))
               else if args rq ''serverchallengeresp'' \<noteq> None then
                 (case sess_it of
                    None \<Rightarrow> Undefined Deref_end_iterator
                  | Some sess \<Rightarrow>
                      (case serverchallengeresp E rq sess [] of
                         Returns (sess1, tree1) \<Rightarrow> Returns (respond rq tree1 (set_sess uniqID sess1 s))
                       | Throws n (sess1, tree1) \<Rightarrow> Throws n (respond rq tree1 (set_sess uniqID sess1 s))
                       | Undefined u \<Rightarrow> Undefined u))
               else if args rq ''clientpairingsecret'' \<noteq> None then
                 (case sess_it of
                    None \<Rightarrow> Undefined Deref_end_iterator
                  | Some sess \<Rightarrow>
                      (case clientpairingsecret E rq sess [] s of
                         Returns (tree1, s1) \<Rightarrow> Returns (respond rq tree1 s1)
                       | Throws n (tree1, s1) \<Rightarrow> Throws n (respond rq tree1 s1)
                       | Undefined u \<Rightarrow> Undefined u))
               else
                 Returns (respond rq (tree_puts [] [(''root.<xmlattr>.status_code'', ''404''),
                            (''root.<xmlattr>.status_message'', ''Invalid pairing request'')]) s)))"

subsection \<open>\<open>pin\<close>\<close>

text \<open>\<open>::isdigit\<close> in the C locale.\<close>

definition isdigit :: "char \<Rightarrow> bool" where
  "isdigit c = (of_char c \<ge> (48 :: nat) \<and> of_char c \<le> (57 :: nat))"

text \<open>
  \<open>pin(pin, name)\<close>. The trees built on the three early returns are locals that nobody
  reads. \<open>sess\<close> is a reference to the mapped value of the first entry, so what is done
  to it is done to the map.
\<close>

definition pin :: "env_t \<Rightarrow> string \<Rightarrow> string \<Rightarrow> nvhttp_state \<Rightarrow> bool \<times> nvhttp_state" where
  "pin E pin_v name_v s =
     (case map_id_sess s of
        [] \<Rightarrow> (False, s)
      | (k, sess) # rest \<Rightarrow>
          if length pin_v \<noteq> 4 then (False, s)
          else if \<not> list_all isdigit pin_v then (False, s)
          else
            let (sess1, tree) = getservercert E sess [] pin_v;
                sess2 = (if name_v \<noteq> []
                         then sess1\<lparr> client := (client sess1)\<lparr> client_name := name_v \<rparr> \<rparr>
                         else sess1)
            in (case response sess2 of
                  Either_left (Some r) \<Rightarrow>
                    (True, s\<lparr> map_id_sess := (k, sess2\<lparr> response := Either_left None \<rparr>) # rest,
                              responses := responses s @ [(r, tree)] \<rparr>)
                | Either_right (Some r) \<Rightarrow>
                    (True, s\<lparr> map_id_sess := (k, sess2\<lparr> response := Either_left None \<rparr>) # rest,
                              responses := responses s @ [(r, tree)] \<rparr>)
                | _ \<Rightarrow> (False, s\<lparr> map_id_sess := (k, sess2) # rest \<rparr>)))"

subsection \<open>\<open>serverinfo\<close>\<close>

text \<open>
  What \<open>serverinfo\<close> reads from the rest of the program. The \<open>SCM_*\<close> bit masks come
  from a header that is not among the sources and are parameters. The build is the
  Linux one, so the \<open>_WIN32\<close> block is absent.
\<close>

record scm_t =
  SCM_H264 :: "32 word"
  SCM_H264_HIGH8_444 :: "32 word"
  SCM_HEVC :: "32 word"
  SCM_HEVC_MAIN10 :: "32 word"
  SCM_HEVC_REXT8_444 :: "32 word"
  SCM_HEVC_REXT10_444 :: "32 word"
  SCM_AV1_MAIN8 :: "32 word"
  SCM_AV1_MAIN10 :: "32 word"
  SCM_AV1_HIGH8_444 :: "32 word"
  SCM_AV1_HIGH10_444 :: "32 word"

record host_t =
  sunshine_name :: string
  VERSION :: string
  GFE_VERSION :: string
  mapped_PORT_HTTPS :: int
  mapped_PORT_HTTP :: int
  active_hevc_mode :: int
  active_av1_mode :: int
  yuv444_for_codec :: "nat \<Rightarrow> bool"
  get_mac_address :: "string \<Rightarrow> string"
  server_cmds :: "string list"
  running :: int
  scm :: scm_t

text \<open>\<open>request->local_endpoint().address()\<close>.\<close>

record address_t =
  is_v6 :: bool
  is_v4_mapped :: bool
  normalized_string :: string

definition codec_mode_flags :: "host_t \<Rightarrow> 32 word" where
  "codec_mode_flags H =
     (let f0 = SCM_H264 (scm H);
          f1 = (if yuv444_for_codec H 0 then f0 OR SCM_H264_HIGH8_444 (scm H) else f0);
          f2 = (if active_hevc_mode H \<ge> 2
                then (let g = f1 OR SCM_HEVC (scm H)
                      in if yuv444_for_codec H 1 then g OR SCM_HEVC_REXT8_444 (scm H) else g)
                else f1);
          f3 = (if active_hevc_mode H \<ge> 3
                then (let g = f2 OR SCM_HEVC_MAIN10 (scm H)
                      in if yuv444_for_codec H 1 then g OR SCM_HEVC_REXT10_444 (scm H) else g)
                else f2);
          f4 = (if active_av1_mode H \<ge> 2
                then (let g = f3 OR SCM_AV1_MAIN8 (scm H)
                      in if yuv444_for_codec H 2 then g OR SCM_AV1_HIGH8_444 (scm H) else g)
                else f3);
          f5 = (if active_av1_mode H \<ge> 3
                then (let g = f4 OR SCM_AV1_MAIN10 (scm H)
                      in if yuv444_for_codec H 2 then g OR SCM_AV1_HIGH10_444 (scm H) else g)
                else f4)
      in f5)"

text \<open>
  The tree \<open>serverinfo<T>\<close> writes. \<open>if constexpr (std::is_same_v<SunshineHTTPS, T>)\<close> is
  the test \<open>tunnel rq = HTTPS\<close>.
\<close>

definition serverinfo_tree :: "host_t \<Rightarrow> request_t \<Rightarrow> address_t \<Rightarrow> nvhttp_state \<Rightarrow> ptree" where
  "serverinfo_tree H rq local_address s =
     (let pair_status = (if tunnel rq = HTTPS \<and> args rq ''uniqueid'' \<noteq> None then 1 else 0 :: int);
          t0 = tree_puts []
                 [(''root.<xmlattr>.status_code'', ''200''),
                  (''root.hostname'', sunshine_name H),
                  (''root.appversion'', VERSION H),
                  (''root.GfeVersion'', GFE_VERSION H),
                  (''root.uniqueid'', unique_id s),
                  (''root.HttpsPort'', to_string (mapped_PORT_HTTPS H)),
                  (''root.ExternalPort'', to_string (mapped_PORT_HTTP H)),
                  (''root.MaxLumaPixelsHEVC'', if active_hevc_mode H > 1 then ''1869449984'' else ''0'')];
          t1 = (if tunnel rq = HTTPS
                then foldl (\<lambda>t cmd_name. tree_push_back t ''root.ServerCommand'' cmd_name)
                       (tree_put t0 ''root.mac'' (get_mac_address H (normalized_string local_address)))
                       (server_cmds H)
                else tree_put t0 ''root.mac'' ''00:00:00:00:00:00'');
          t2 = (if is_v6 local_address \<and> \<not> is_v4_mapped local_address
                then tree_put t1 ''root.LocalIP'' ''127.0.0.1''
                else tree_put t1 ''root.LocalIP'' (normalized_string local_address))
      in tree_puts t2
           [(''root.ServerCodecModeSupport'', to_string (uint (codec_mode_flags H))),
            (''root.PairStatus'', to_string pair_status),
            (''root.currentgame'', to_string (running H)),
            (''root.state'', if running H > 0 then ''SUNSHINE_SERVER_BUSY'' else ''SUNSHINE_SERVER_FREE'')])"

definition serverinfo :: "host_t \<Rightarrow> request_t \<Rightarrow> address_t \<Rightarrow> nvhttp_state \<Rightarrow> nvhttp_state" where
  "serverinfo H rq local_address s = respond rq (serverinfo_tree H rq local_address s) s"

subsection \<open>Reading results\<close>

text \<open>The response pointer a session holds while it waits for the PIN, if any.\<close>

definition pending_handle :: "async_response \<Rightarrow> nat option" where
  "pending_handle r = (case r of Either_left (Some h) \<Rightarrow> Some h
                               | Either_right (Some h) \<Rightarrow> Some h
                               | _ \<Rightarrow> None)"

text \<open>The state a call leaves behind, when it leaves one.\<close>

definition final_state :: "nvhttp_state outcome \<Rightarrow> nvhttp_state option" where
  "final_state r = (case r of Returns s \<Rightarrow> Some s | Throws n s \<Rightarrow> Some s | Undefined u \<Rightarrow> None)"

text \<open>The body written last, with the response object it was written to.\<close>

definition last_response :: "nvhttp_state \<Rightarrow> (nat \<times> ptree) option" where
  "last_response s = (if responses s = [] then None else Some (last (responses s)))"

text \<open>Requests handled one after the other, as long as the behaviour is defined.\<close>

fun pair_seq :: "env_t \<Rightarrow> request_t list \<Rightarrow> nvhttp_state \<Rightarrow> nvhttp_state outcome" where
  "pair_seq E [] s = Returns s"
| "pair_seq E (rq # rqs) s =
     (case pair E rq s of
        Returns s1 \<Rightarrow> pair_seq E rqs s1
      | Throws n s1 \<Rightarrow> pair_seq E rqs s1
      | Undefined u \<Rightarrow> Undefined u)"

subsection \<open>A concrete environment\<close>

text \<open>
  An environment on which the handlers can be run: pairing enabled, asynchronous PIN
  entry, and stand-ins for the functions of crypto.h and utility.h (hashing, hex coding
  and the ciphers are the identity, every certificate has the signature field \<open>SIG\<close>, a
  signature verifies when it is the text \<open>OK\<close>).
\<close>

definition demo_env :: env_t where
  "demo_env = \<lparr> enable_pairing = True, FRESH_STATE = False, PIN_STDIN = False,
      OTP_EXPIRE_DURATION = 180, servercert = ''SERVERCERT'', pkey = ''PKEY'',
      hash = (\<lambda>x. x), from_hex_vec = (\<lambda>x. x), from_hex_16 = (\<lambda>x. take 16 x),
      hex_vec = (\<lambda>x. x), hex = (\<lambda>x. x),
      signature_of = (\<lambda>c. ''SIG''), sign256 = (\<lambda>k d. ''SIGNED''),
      verify256 = (\<lambda>c secret sign. sign = ''OK''),
      ecb_decrypt = (\<lambda>k d. d), ecb_encrypt = (\<lambda>k d. d),
      rand = (\<lambda>k n. replicate n CHR ''r''), generate = (\<lambda>k. ''uuid-'' @ to_digits k) \<rparr>"

definition empty_state :: nvhttp_state where
  "empty_state = \<lparr> map_id_sess = [], client_root = [], cert_chain = [], unique_id = ''host'',
      one_time_pin = [], otp_passphrase = [], otp_device_name = [], otp_creation_time = 0,
      file_state = No_file, responses = [], generated = 0, rand_calls = 0 \<rparr>"

text \<open>A request with the given query parameters, at clock 0, the state file writable.\<close>

definition mk_request :: "tunnel_t \<Rightarrow> nat \<Rightarrow> (string \<times> string) list \<Rightarrow> request_t" where
  "mk_request tn r q = \<lparr> tunnel = tn, resp = r, args = map_of q, now = 0,
      stdin_line = ''1234'', write_ok = True \<rparr>"

definition demo_salt :: string where
  "demo_salt = ''00112233445566778899aabbccddeeff''"

definition demo_host :: host_t where
  "demo_host = \<lparr> sunshine_name = ''host'', VERSION = ''1'', GFE_VERSION = ''3'',
      mapped_PORT_HTTPS = 47984, mapped_PORT_HTTP = 47989,
      active_hevc_mode = 1, active_av1_mode = 1, yuv444_for_codec = (\<lambda>_. False),
      get_mac_address = (\<lambda>_. ''01:02:03:04:05:06''), server_cmds = [''Reboot''], running = 0,
      scm = \<lparr> SCM_H264 = 1, SCM_H264_HIGH8_444 = 2, SCM_HEVC = 4, SCM_HEVC_MAIN10 = 8,
              SCM_HEVC_REXT8_444 = 16, SCM_HEVC_REXT10_444 = 32, SCM_AV1_MAIN8 = 65536,
              SCM_AV1_MAIN10 = 131072, SCM_AV1_HIGH8_444 = 262144,
              SCM_AV1_HIGH10_444 = 524288 \<rparr> \<rparr>"

definition demo_address :: address_t where
  "demo_address = \<lparr> is_v6 = False, is_v4_mapped = False, normalized_string = ''192.168.1.2'' \<rparr>"

text \<open>The assignment \<open>sess.client.name = name\<close> that \<open>pin\<close> makes when \<open>name\<close> is not empty.\<close>

definition rename_client :: "string \<Rightarrow> pair_session_t \<Rightarrow> pair_session_t" where
  "rename_client nm sess =
     (if nm \<noteq> [] then sess\<lparr> client := (client sess)\<lparr> client_name := nm \<rparr> \<rparr> else sess)"


text \<open>
  A session as \<open>getservercert\<close> creates it, with a 32-character salt; a state in which it
  waits for its PIN with a suspended HTTP response (object 7), and one in which it holds
  no response.
\<close>

definition demo_session :: pair_session_t where
  "demo_session = \<lparr> client = \<lparr> uniqueID = ''aaaa'', client_cert = ''CERT1'', client_name = ''Alice'' \<rparr>,
      cipher_key = None, clienthash = [], serversecret = [], serverchallenge = [],
      response = Either_empty, salt = demo_salt \<rparr>"

definition pending_state :: nvhttp_state where
  "pending_state = empty_state\<lparr> map_id_sess := [(''aaaa'', demo_session\<lparr> response := Either_left (Some 7) \<rparr>)] \<rparr>"

definition idle_state :: nvhttp_state where
  "idle_state = empty_state\<lparr> map_id_sess := [(''aaaa'', demo_session)] \<rparr>"

text \<open>The query of a phase-1 request.\<close>

definition getservercert_request :: "string \<Rightarrow> string \<Rightarrow> string \<Rightarrow> string \<Rightarrow> (string \<times> string) list" where
  "getservercert_request uid dn cc sl =
     [(''uniqueid'', uid), (''phrase'', ''getservercert''), (''devicename'', dn),
      (''clientcert'', cc), (''salt'', sl)]"

text \<open>
  A session that has been through phases 1 to 3, in the only entry of the map: with the
  stand-in functions its \<open>clienthash\<close> is the hash phase 4 expects for the secret
  \<open>0123456789abcdef\<close>.
\<close>

definition finishing_session :: pair_session_t where
  "finishing_session = \<lparr> client = \<lparr> uniqueID = ''aaaa'', client_cert = ''CERT1'',
                                      client_name = ''Alice (phone)'' \<rparr>,
      cipher_key = Some ''0011223344556677'', clienthash = ''CHALSIG0123456789abcdef'',
      serversecret = ''SECR'', serverchallenge = ''CHAL'', response = Either_left None,
      salt = demo_salt \<rparr>"

definition finishing_state :: nvhttp_state where
  "finishing_state = empty_state\<lparr> map_id_sess := [(''aaaa'', finishing_session)] \<rparr>"

text \<open>A state in which \<open>request_otp\<close> has registered the PIN 4821 at clock 0.\<close>

definition otp_state :: nvhttp_state where
  "otp_state = empty_state\<lparr> one_time_pin := ''4821'', otp_passphrase := ''hunter2'',
                             otp_device_name := ''Phone'', otp_creation_time := 0 \<rparr>"

text \<open>Every entry of the session map is stored under the \<open>uniqueID\<close> of its own client.\<close>

definition sess_keyed :: "(string \<times> pair_session_t) list \<Rightarrow> bool" where
  "sess_keyed m = list_all (\<lambda>kv. uniqueID (client (snd kv)) = fst kv) m"

text \<open>
  The state after a phase-1 request with the 4-character salt \<open>0011\<close> has been answered
  on the standard-input path: the session is stored, without key and without response.
\<close>

definition short_salt_state :: nvhttp_state where
  "short_salt_state = empty_state\<lparr>
      map_id_sess := [(''aaaa'', demo_session\<lparr> salt := ''0011'' \<rparr>)],
      responses := [(1, [(''root.paired'', ''0''), (''root.<xmlattr>.status_code'', ''400''),
                         (''root.<xmlattr>.status_message'', ''Salt too short'')])] \<rparr>"



section \<open>Properties\<close>

subsection \<open>Property trees\<close>

lemma tree_get_put: "tree_get (tree_put t k v) k' = (if k' = k then Some v else tree_get t k')"
  by (induction t) (auto simp: tree_get_def)

lemma tree_get_Nil: "tree_get [] k = None"
  by (simp add: tree_get_def)

lemma tree_children_put_other: "k' \<noteq> k \<Longrightarrow> tree_children (tree_put t k v) k' = tree_children t k'"
  by (induction t) (auto simp: tree_children_def)

lemma tree_get_push_back_other: "k' \<noteq> k \<Longrightarrow> tree_get (tree_push_back t k v) k' = tree_get t k'"
  by (induction t) (auto simp: tree_get_def tree_push_back_def)

lemma tree_get_push_all:
  "k' \<noteq> k \<Longrightarrow> tree_get (foldl (\<lambda>t c. tree_push_back t k c) t cs) k' = tree_get t k'"
  by (induction cs arbitrary: t) (simp_all add: tree_get_push_back_other)

lemma tree_children_push_all:
  "tree_children (foldl (\<lambda>t c. tree_push_back t k c) t cs) k = tree_children t k @ cs"
  by (induction cs arbitrary: t) (simp_all add: tree_children_def tree_push_back_def)

lemma tree_children_Nil: "tree_children [] k = []"
  by (simp add: tree_children_def)

lemma to_string_0: "to_string 0 = ''0''"
  by (simp add: to_string_def to_digits.simps digit_char_def)

lemma to_string_1: "to_string 1 = ''1''"
  by (simp add: to_string_def to_digits.simps digit_char_def)

subsection \<open>\<open>save_state\<close> against the specification\<close>

lemma spec_survivors_snoc:
  "spec_survivors (cs @ [n]) =
     spec_survivors cs @ (if cert n \<in> set (map cert cs) then [] else [n])"
proof -
  have a: "filter (\<lambda>i. cert ((cs @ [n]) ! i) \<notin> set (map cert (take i (cs @ [n])))) [0..<length cs]
         = filter (\<lambda>i. cert (cs ! i) \<notin> set (map cert (take i cs))) [0..<length cs]"
    by (rule filter_cong) (auto simp: nth_append)
  have b: "map (nth (cs @ [n])) (filter (\<lambda>i. cert (cs ! i) \<notin> set (map cert (take i cs))) [0..<length cs])
         = map (nth cs) (filter (\<lambda>i. cert (cs ! i) \<notin> set (map cert (take i cs))) [0..<length cs])"
    by (rule map_cong) (auto simp: nth_append)
  show ?thesis
    unfolding spec_survivors_def using a b by simp
qed

lemma spec_written_name_snoc:
  "j < length sv \<Longrightarrow> spec_written_name base (sv @ [n]) j = spec_written_name base sv j"
  by (simp add: spec_written_name_def spec_earlier_same_base_def nth_append)

lemma spec_rename_snoc:
  "spec_rename base (sv @ [n]) = spec_rename base sv @
     [\<lparr> name = spec_written_name base (sv @ [n]) (length sv), cert = cert n, uuid = uuid n \<rparr>]"
proof -
  have "map (\<lambda>j. \<lparr> name = spec_written_name base (sv @ [n]) j, cert = cert ((sv @ [n]) ! j),
                   uuid = uuid ((sv @ [n]) ! j) \<rparr>) [0..<length sv]
      = map (\<lambda>j. \<lparr> name = spec_written_name base sv j, cert = cert (sv ! j), uuid = uuid (sv ! j) \<rparr>)
            [0..<length sv]"
    by (rule map_cong) (auto simp: nth_append spec_written_name_snoc)
  then show ?thesis
    by (simp add: spec_rename_def)
qed

text \<open>
  The loop invariant: after the entries \<open>cs\<close>, the set holds the certificates seen, the
  counter of a base name is the number of survivors with that base name, and the array
  is the renamed list of survivors.
\<close>

lemma save_fold_invariant:
  "unique_certs (foldl save_step save_init cs) = rev (map cert (spec_survivors cs)) \<and>
   set (unique_certs (foldl save_step save_init cs)) = set (map cert cs) \<and>
   name_counts (foldl save_step save_init cs)
     = (\<lambda>b. int (count_base base_name_of (spec_survivors cs) b)) \<and>
   named_cert_nodes (foldl save_step save_init cs) = spec_rename base_name_of (spec_survivors cs)"
proof (induction cs rule: rev_induct)
  case Nil
  show ?case
    by (simp add: save_init_def spec_survivors_def spec_rename_def count_base_def)
next
  case (snoc n cs)
  let ?acc = "foldl save_step save_init cs"
  from snoc.IH have uc: "unique_certs ?acc = rev (map cert (spec_survivors cs))"
    and su: "set (unique_certs ?acc) = set (map cert cs)"
    and nc: "name_counts ?acc = (\<lambda>b. int (count_base base_name_of (spec_survivors cs) b))"
    and nn: "named_cert_nodes ?acc = spec_rename base_name_of (spec_survivors cs)"
    by blast+
  show ?case
  proof (cases "cert n \<in> set (map cert cs)")
    case True
    then have "cert n \<in> set (unique_certs ?acc)"
      using su by simp
    then have "save_step ?acc n = ?acc"
      by (simp add: save_step_def)
    with True uc su nc nn show ?thesis
      by (auto simp: spec_survivors_snoc)
  next
    case False
    have nm: "spec_written_name base_name_of (spec_survivors cs @ [n]) (length (spec_survivors cs))
         = (let b = base_name_of (name n); k = count_base base_name_of (spec_survivors cs) b
            in if k = 0 then b else b @ '' ('' @ to_string (int k + 1) @ '')'')"
      by (simp add: spec_written_name_def spec_earlier_same_base_def count_base_def)
    from False have notin: "cert n \<notin> set (unique_certs ?acc)"
      using su by simp
    have step: "save_step ?acc n =
        \<lparr> unique_certs = cert n # unique_certs ?acc,
          name_counts = (name_counts ?acc)(base_name_of (name n) :=
                           name_counts ?acc (base_name_of (name n)) + 1),
          named_cert_nodes = named_cert_nodes ?acc @
            [\<lparr> name = spec_written_name base_name_of (spec_survivors cs @ [n])
                        (length (spec_survivors cs)),
               cert = cert n, uuid = uuid n \<rparr>] \<rparr>"
      using notin by (simp add: save_step_def Let_def nm nc)
    from uc su have su': "cert ` set (spec_survivors cs) = cert ` set cs"
      by simp
    show ?thesis
      using False su'
      by (simp add: step spec_survivors_snoc spec_rename_snoc uc nc nn count_base_def fun_eq_iff)
  qed
qed

text \<open>\<open>std::string::find\<close> returns the least position at which the pattern stands.\<close>

lemma find_map_Suc: "find P (map Suc xs) = map_option Suc (find (\<lambda>i. P (Suc i)) xs)"
  by (induction xs) simp_all

lemma str_find_least:
  "pat \<noteq> [] \<Longrightarrow>
     str_find s pat = find (\<lambda>i. take (length pat) (drop i s) = pat) [0..<length s]"
proof (induction s)
  case Nil
  then show ?case by simp
next
  case (Cons c cs)
  have "[0..<length (c # cs)] = 0 # map Suc [0..<length cs]"
    by (simp add: upt_conv_Cons map_Suc_upt del: upt_Suc)
  with Cons show ?case
    by (simp add: find_map_Suc del: upt_Suc)
qed

lemma base_name_of_cut: "base_name_of = spec_cut_at_first_paren"
proof
  fix nm
  have "length '' ('' = 2"
    by simp
  with str_find_least [of "'' (''" nm]
  have "str_find nm '' ('' = find (\<lambda>i. take 2 (drop i nm) = '' ('') [0..<length nm]"
    by (simp only: list.distinct not_False_eq_True simp_thms)
  then show "base_name_of nm = spec_cut_at_first_paren nm"
    by (simp add: base_name_of_def spec_cut_at_first_paren_def)
qed

text \<open>
  The statement C8 makes fails on a name in which \<open>" ("\<close> does not begin a \<open>" (...)"\<close>
  suffix: \<open>John (Work) Laptop\<close> has no such suffix, and \<open>save_state\<close> writes it as \<open>John\<close>.
\<close>

theorem save_state_strips_more_than_suffix_counterexample:
  "save_named_devices [\<lparr> name = ''John (Work) Laptop'', cert = ''A'', uuid = ''1'' \<rparr>]
     = [\<lparr> name = ''John'', cert = ''A'', uuid = ''1'' \<rparr>]
   \<and> spec_saved spec_strip_suffix [\<lparr> name = ''John (Work) Laptop'', cert = ''A'', uuid = ''1'' \<rparr>]
     = [\<lparr> name = ''John (Work) Laptop'', cert = ''A'', uuid = ''1'' \<rparr>]
   \<and> spec_saved spec_strip_suffix [\<lparr> name = ''John (2)'', cert = ''A'', uuid = ''1'' \<rparr>]
     = [\<lparr> name = ''John'', cert = ''A'', uuid = ''1'' \<rparr>]"
  by (simp add: save_named_devices_def save_step_def save_init_def base_name_of_def Let_def
      spec_saved_def spec_survivors_def spec_written_name_def spec_earlier_same_base_def
      spec_strip_suffix_def)

text \<open>
  C8, as amended. For every in-memory client list, \<open>save_state\<close> writes one entry per
  distinct certificate string, the first occurrence winning, in insertion order. The
  base name of an entry is its display name cut at the first \<open>" ("\<close>, whether or not a
  \<open>" (...)"\<close> suffix begins there; the first survivor with a base name is written under
  the base name, the second and later ones under the base name followed by \<open>" (N)"\<close>,
  N = 2, 3, ..., in insertion order.
\<close>

theorem save_state_dedup_rename:
  "save_named_devices cs = spec_saved spec_cut_at_first_paren cs"
  using save_fold_invariant [of cs]
  by (simp add: save_named_devices_def spec_saved_def spec_rename_def Let_def base_name_of_cut)

theorem save_state_dedup_rename_witness:
  "save_named_devices
     [\<lparr> name = ''Bob'', cert = ''A'', uuid = ''1'' \<rparr>, \<lparr> name = ''Bob (7)'', cert = ''B'', uuid = ''2'' \<rparr>,
      \<lparr> name = ''Bob'', cert = ''A'', uuid = ''3'' \<rparr>, \<lparr> name = ''Bob (x) y'', cert = ''C'', uuid = ''4'' \<rparr>]
   = spec_saved spec_cut_at_first_paren
     [\<lparr> name = ''Bob'', cert = ''A'', uuid = ''1'' \<rparr>, \<lparr> name = ''Bob (7)'', cert = ''B'', uuid = ''2'' \<rparr>,
      \<lparr> name = ''Bob'', cert = ''A'', uuid = ''3'' \<rparr>, \<lparr> name = ''Bob (x) y'', cert = ''C'', uuid = ''4'' \<rparr>]
   \<and> spec_saved spec_cut_at_first_paren
     [\<lparr> name = ''Bob'', cert = ''A'', uuid = ''1'' \<rparr>, \<lparr> name = ''Bob (7)'', cert = ''B'', uuid = ''2'' \<rparr>,
      \<lparr> name = ''Bob'', cert = ''A'', uuid = ''3'' \<rparr>, \<lparr> name = ''Bob (x) y'', cert = ''C'', uuid = ''4'' \<rparr>]
   = [\<lparr> name = ''Bob'', cert = ''A'', uuid = ''1'' \<rparr>, \<lparr> name = ''Bob (2)'', cert = ''B'', uuid = ''2'' \<rparr>,
      \<lparr> name = ''Bob (3)'', cert = ''C'', uuid = ''4'' \<rparr>]"
  using save_state_dedup_rename
    [of "[\<lparr> name = ''Bob'', cert = ''A'', uuid = ''1'' \<rparr>, \<lparr> name = ''Bob (7)'', cert = ''B'', uuid = ''2'' \<rparr>,
          \<lparr> name = ''Bob'', cert = ''A'', uuid = ''3'' \<rparr>, \<lparr> name = ''Bob (x) y'', cert = ''C'', uuid = ''4'' \<rparr>]"]
  by (simp add: save_named_devices_def save_step_def save_init_def base_name_of_def Let_def
      to_string_def to_digits.simps digit_char_def)

subsection \<open>\<open>serverinfo\<close>\<close>

text \<open>
  C9, as amended. Over plaintext HTTP \<open>serverinfo\<close> reports the MAC 00:00:00:00:00:00 and
  no \<open>ServerCommand\<close> child. Over HTTPS it reports the MAC of the local address and the
  configured \<open>ServerCommand\<close> list for every query, with or without \<open>uniqueid\<close>.
  \<open>PairStatus\<close> is 1 exactly when the request is HTTPS and carries \<open>uniqueid\<close>.
\<close>

theorem serverinfo_exposure:
  "tree_get (serverinfo_tree H rq a s) ''root.mac''
     = Some (if tunnel rq = HTTPS then get_mac_address H (normalized_string a)
             else ''00:00:00:00:00:00'')
   \<and> tree_children (serverinfo_tree H rq a s) ''root.ServerCommand''
     = (if tunnel rq = HTTPS then server_cmds H else [])
   \<and> tree_get (serverinfo_tree H rq a s) ''root.PairStatus''
     = Some (if tunnel rq = HTTPS \<and> args rq ''uniqueid'' \<noteq> None then ''1'' else ''0'')"
  by (simp add: serverinfo_tree_def tree_puts_def Let_def tree_get_put tree_children_put_other
      tree_get_push_all tree_children_push_all tree_children_Nil to_string_0 to_string_1
      del: tree_put.simps)

lemma tree_children_push_back:
  "tree_children (tree_push_back t k v) k' = tree_children t k' @ (if k' = k then [v] else [])"
  by (simp add: tree_children_def tree_push_back_def)


text \<open>
  The statement C9 makes about HTTPS fails on a request without \<open>uniqueid\<close>: the MAC of
  the local address and the \<open>ServerCommand\<close> list are in the response all the same.
\<close>

theorem serverinfo_https_without_uniqueid_counterexample:
  "args (mk_request HTTPS 0 []) ''uniqueid'' = None
   \<and> tree_get (serverinfo_tree demo_host (mk_request HTTPS 0 []) demo_address empty_state) ''root.mac''
       = Some ''01:02:03:04:05:06''
   \<and> tree_children (serverinfo_tree demo_host (mk_request HTTPS 0 []) demo_address empty_state)
        ''root.ServerCommand'' = [''Reboot'']
   \<and> tree_get (serverinfo_tree demo_host (mk_request HTTPS 0 []) demo_address empty_state)
        ''root.PairStatus'' = Some ''0''"
  by (simp add: serverinfo_tree_def tree_puts_def Let_def tree_get_put tree_children_put_other
      tree_get_push_all tree_children_push_all tree_children_Nil to_string_0 to_string_1
      mk_request_def demo_host_def demo_address_def tree_get_push_back_other
      tree_children_push_back
      del: tree_put.simps)


subsection \<open>The key-derivation step\<close>

text \<open>
  C3. When the session's salt has at least 32 characters, \<open>getservercert\<close> stores as
  \<open>cipher_key\<close> the first 16 bytes of the SHA-256 of the decoded first 32 salt characters
  followed by the PIN bytes, changes nothing else in the session, and answers
  \<open>paired=1\<close>, \<open>plaincert\<close> = the hex coding of the server certificate, \<open>status_code=200\<close>.
  The key depends on salt and PIN only.
\<close>

theorem getservercert_key_derivation:
  "32 \<le> length (salt sess) \<Longrightarrow>
     fst (getservercert E sess tree p)
       = sess\<lparr> cipher_key := Some (take 16 (hash E (from_hex_16 E (take 32 (salt sess)) @ p))) \<rparr>
     \<and> tree_get (snd (getservercert E sess tree p)) ''root.paired'' = Some ''1''
     \<and> tree_get (snd (getservercert E sess tree p)) ''root.plaincert'' = Some (hex_vec E (servercert E))
     \<and> tree_get (snd (getservercert E sess tree p)) ''root.<xmlattr>.status_code'' = Some ''200''
     \<and> (\<forall>sess2 tree2. salt sess2 = salt sess \<longrightarrow>
           cipher_key (fst (getservercert E sess2 tree2 p)) = cipher_key (fst (getservercert E sess tree p)))"
  by (simp add: getservercert_def gen_aes_key_def tree_puts_def Let_def tree_get_put
      del: tree_put.simps)

theorem getservercert_key_derivation_witness:
  "32 \<le> length (salt demo_session)
   \<and> cipher_key (fst (getservercert demo_env demo_session [] ''1234'')) = Some ''0011223344556677''
   \<and> tree_get (snd (getservercert demo_env demo_session [] ''1234'')) ''root.paired'' = Some ''1''
   \<and> tree_get (snd (getservercert demo_env demo_session [] ''1234'')) ''root.plaincert'' = Some ''SERVERCERT''
   \<and> tree_get (snd (getservercert demo_env demo_session [] ''1234'')) ''root.<xmlattr>.status_code''
       = Some ''200''"
proof -
  have h: "32 \<le> length (salt demo_session)"
    by (simp add: demo_session_def demo_salt_def)
  show ?thesis
    using h getservercert_key_derivation [OF h, of demo_env "[]" "''1234''"]
    by (simp add: demo_session_def demo_salt_def demo_env_def)
qed


subsection \<open>\<open>pin\<close>\<close>

lemma isdigit_iff: "isdigit c \<longleftrightarrow> c \<in> set ''0123456789''"
proof
  assume "isdigit c"
  then have "(of_char c :: nat) \<in> of_char ` set ''0123456789''"
    unfolding isdigit_def by simp arith
  then obtain d where d: "d \<in> set ''0123456789''" and "(of_char c :: nat) = of_char d"
    by blast
  then have "c = d"
    by simp
  with d show "c \<in> set ''0123456789''"
    by simp
next
  assume "c \<in> set ''0123456789''"
  then show "isdigit c"
    by (auto simp: isdigit_def)
qed

lemma getservercert_response: "response (fst (getservercert E sess t p)) = response sess"
  by (simp add: getservercert_def Let_def)

lemma pin_rejects:
  "map_id_sess s = [] \<or> length p \<noteq> 4 \<or> \<not> list_all isdigit p \<Longrightarrow> pin E p nm s = (False, s)"
  by (auto simp: pin_def split: list.splits)

lemma pin_accepts:
  assumes "map_id_sess s = (k, sess) # rest" "length p = 4" "list_all isdigit p"
  shows "pin E p nm s =
     (case pending_handle (response sess) of
        Some h \<Rightarrow> (True, s\<lparr> map_id_sess :=
                               (k, (rename_client nm (fst (getservercert E sess [] p)))
                                     \<lparr> response := Either_left None \<rparr>) # rest,
                             responses := responses s @ [(h, snd (getservercert E sess [] p))] \<rparr>)
      | None \<Rightarrow> (False, s\<lparr> map_id_sess :=
                               (k, rename_client nm (fst (getservercert E sess [] p))) # rest \<rparr>))"
proof -
  obtain sess1 tree where g: "getservercert E sess [] p = (sess1, tree)"
    by (cases "getservercert E sess [] p")
  have r: "response sess1 = response sess"
    using getservercert_response [of E sess "[]" p] g by simp
  show ?thesis
    using assms g r
    by (simp add: pin_def rename_client_def pending_handle_def
        split: async_response.splits option.splits)
qed


text \<open>
  C7. \<open>pin p name\<close> returns false (and changes nothing) when the session map is empty,
  when \<open>p\<close> does not have exactly 4 characters, or when a character of \<open>p\<close> is not a
  decimal digit. Otherwise it runs the key-derivation step on the first session with
  PIN \<open>p\<close>, replaces the client name when \<open>name\<close> is not empty, and, when the session holds
  a suspended response, writes the tree to it and resets the handle. The result is true
  exactly when a response was written.
\<close>

theorem pin_result:
  "(map_id_sess s = [] \<or> length p \<noteq> 4 \<or> (\<exists>c \<in> set p. c \<notin> set ''0123456789'')
      \<longrightarrow> pin E p nm s = (False, s))
   \<and> (\<forall>k sess rest.
        map_id_sess s = (k, sess) # rest \<and> length p = 4 \<and> (\<forall>c \<in> set p. c \<in> set ''0123456789'') \<longrightarrow>
          pin E p nm s =
            (case pending_handle (response sess) of
               Some h \<Rightarrow> (True, s\<lparr> map_id_sess :=
                                      (k, (rename_client nm (fst (getservercert E sess [] p)))
                                            \<lparr> response := Either_left None \<rparr>) # rest,
                                    responses := responses s @ [(h, snd (getservercert E sess [] p))] \<rparr>)
             | None \<Rightarrow> (False, s\<lparr> map_id_sess :=
                                      (k, rename_client nm (fst (getservercert E sess [] p))) # rest \<rparr>)))
   \<and> (fst (pin E p nm s) \<longleftrightarrow> responses (snd (pin E p nm s)) \<noteq> responses s)"
proof (intro conjI impI allI)
  assume "map_id_sess s = [] \<or> length p \<noteq> 4 \<or> (\<exists>c \<in> set p. c \<notin> set ''0123456789'')"
  then have "map_id_sess s = [] \<or> length p \<noteq> 4 \<or> \<not> list_all isdigit p"
    unfolding list_all_iff isdigit_iff by blast
  then show "pin E p nm s = (False, s)"
    by (rule pin_rejects)
next
  fix k sess rest
  assume a: "map_id_sess s = (k, sess) # rest \<and> length p = 4 \<and> (\<forall>c \<in> set p. c \<in> set ''0123456789'')"
  then have "list_all isdigit p"
    unfolding list_all_iff isdigit_iff by blast
  with a show "pin E p nm s =
            (case pending_handle (response sess) of
               Some h \<Rightarrow> (True, s\<lparr> map_id_sess :=
                                      (k, (rename_client nm (fst (getservercert E sess [] p)))
                                            \<lparr> response := Either_left None \<rparr>) # rest,
                                    responses := responses s @ [(h, snd (getservercert E sess [] p))] \<rparr>)
             | None \<Rightarrow> (False, s\<lparr> map_id_sess :=
                                      (k, rename_client nm (fst (getservercert E sess [] p))) # rest \<rparr>))"
    by (simp add: pin_accepts)
next
  show "fst (pin E p nm s) \<longleftrightarrow> responses (snd (pin E p nm s)) \<noteq> responses s"
  proof (cases "map_id_sess s = [] \<or> length p \<noteq> 4 \<or> \<not> list_all isdigit p")
    case True
    then show ?thesis
      by (simp add: pin_rejects)
  next
    case False
    then obtain k sess rest where "map_id_sess s = (k, sess) # rest"
      by (cases "map_id_sess s") auto
    with False show ?thesis
      by (simp add: pin_accepts split: option.splits)
  qed
qed

theorem pin_result_witness:
  "pin demo_env ''12a4'' ''Bob'' pending_state = (False, pending_state)
   \<and> pin demo_env ''1234'' ''Bob'' pending_state
       = (True, pending_state\<lparr> map_id_sess :=
              [(''aaaa'', demo_session\<lparr> cipher_key := Some ''0011223344556677'',
                                        client := \<lparr> uniqueID = ''aaaa'', client_cert = ''CERT1'',
                                                    client_name = ''Bob'' \<rparr>,
                                        response := Either_left None \<rparr>)],
            responses := [(7, [(''root.paired'', ''1''), (''root.plaincert'', ''SERVERCERT''),
                               (''root.<xmlattr>.status_code'', ''200'')])] \<rparr>)"
  using pin_result [of pending_state "''12a4''" demo_env "''Bob''"]
    pin_result [of pending_state "''1234''" demo_env "''Bob''"]
  by (simp add: pending_state_def empty_state_def demo_session_def demo_salt_def demo_env_def
      getservercert_def gen_aes_key_def rename_client_def pending_handle_def tree_puts_def Let_def)

lemma rename_client_fields:
  "response (rename_client nm x) = response x"
  "cipher_key (rename_client nm x) = cipher_key x"
  "nm \<noteq> [] \<Longrightarrow> client_name (client (rename_client nm x)) = nm"
  by (simp_all add: rename_client_def)


subsection \<open>Running \<open>pair\<close> on concrete requests\<close>

lemmas pair_eval = pair_def pair_getservercert_def pair_after_salt_def mk_request_def demo_env_def
  empty_state_def map_find_def map_emplace_def set_sess_def map_assign_def getservercert_def
  respond_def crypto_rand_def clear_otp_def tree_puts_def Let_def as_either_def final_state_def
  last_response_def demo_salt_def gen_aes_key_def clientchallenge_def serverchallengeresp_def
  clientpairingsecret_def idle_state_def demo_session_def

text \<open>
  C6 asks that a \<open>clientchallenge\<close>, \<open>serverchallengeresp\<close> or \<open>clientpairingsecret\<close>
  request never makes the handler dereference an invalid map iterator or a null
  \<open>cipher_key\<close>. The code does both: for a \<open>uniqueid\<close> without session \<open>pair\<close> dereferences
  \<open>map_id_sess.find(uniqID)\<close>, which is the end iterator, and after a \<open>getservercert\<close> that
  is still waiting for its PIN the session's \<open>cipher_key\<close> is null when \<open>clientchallenge\<close>
  or \<open>serverchallengeresp\<close> dereferences it.
\<close>

theorem pair_dereferences_invalid:
  "pair demo_env (mk_request HTTP 1 [(''uniqueid'', ''zzzz''), (''clientchallenge'', ''00'')]) empty_state
     = Undefined Deref_end_iterator
   \<and> pair demo_env (mk_request HTTP 1 [(''uniqueid'', ''zzzz''), (''serverchallengeresp'', ''00'')])
       empty_state
     = Undefined Deref_end_iterator
   \<and> pair demo_env (mk_request HTTP 1 [(''uniqueid'', ''zzzz''),
                                        (''clientpairingsecret'', ''0123456789abcdefOK'')]) empty_state
     = Undefined Deref_end_iterator
   \<and> pair_seq demo_env
       [mk_request HTTP 1 (getservercert_request ''aaaa'' ''Alice'' ''CERT1'' demo_salt),
        mk_request HTTP 2 [(''uniqueid'', ''aaaa''), (''clientchallenge'', ''00'')]] empty_state
     = Undefined Deref_null_cipher_key
   \<and> pair_seq demo_env
       [mk_request HTTP 1 (getservercert_request ''aaaa'' ''Alice'' ''CERT1'' demo_salt),
        mk_request HTTP 2 [(''uniqueid'', ''aaaa''), (''serverchallengeresp'', ''00'')]] empty_state
     = Undefined Deref_null_cipher_key"
  by (simp add: pair_eval getservercert_request_def)

text \<open>
  C4 says that a \<open>getservercert\<close> request with \<open>otpauth\<close> is answered with status 503 when
  no OTP is registered (or it has expired), and so is a repeat of an \<open>otpauth\<close> that was
  accepted. The code puts 503 and the message into the tree and then falls through to
  the key derivation with a random PIN, which overwrites the status: the response
  carries \<open>status_code=200\<close> and \<open>paired=1\<close> next to the message
  \<open>OTP auth not available.\<close>, both without a registered OTP and on the repeat.
\<close>

theorem pair_otp_unavailable_answers_200:
  "map_option last_response
     (final_state (pair demo_env
        (mk_request HTTP 1 (getservercert_request ''aaaa'' ''Alice'' ''CERT1'' demo_salt
                            @ [(''otpauth'', ''ABCD'')]))
        empty_state))
   = Some (Some (1, [(''root.<xmlattr>.status_code'', ''200''),
                     (''root.<xmlattr>.status_message'', ''OTP auth not available.''),
                     (''root.paired'', ''1''),
                     (''root.plaincert'', ''SERVERCERT'')]))
   \<and> map_option responses
     (final_state (pair_seq demo_env
        [mk_request HTTP 1 (getservercert_request ''aaaa'' ''Alice'' ''CERT1'' demo_salt
            @ [(''otpauth'', ''482100112233445566778899aabbccddeeffhunter2'')]),
         mk_request HTTP 2 (getservercert_request ''aaaa'' ''Alice'' ''CERT1'' demo_salt
            @ [(''otpauth'', ''482100112233445566778899aabbccddeeffhunter2'')])]
        otp_state))
   = Some [(1, [(''root.paired'', ''1''),
                (''root.plaincert'', ''SERVERCERT''),
                (''root.<xmlattr>.status_code'', ''200'')]),
           (2, [(''root.<xmlattr>.status_code'', ''200''),
                (''root.<xmlattr>.status_message'', ''OTP auth not available.''),
                (''root.paired'', ''1''),
                (''root.plaincert'', ''SERVERCERT'')])]"
  by (simp add: pair_eval getservercert_request_def otp_state_def)

text \<open>
  C2 says that a second \<open>getservercert\<close> with the same \<open>uniqueid\<close> replaces the stored
  session by a newly constructed one. \<open>emplace\<close> does not insert when the key is present:
  after a second request with another device name, certificate and salt, the single
  entry still carries the first request's certificate and name; only the salt and the
  suspended response are those of the second request.
\<close>

theorem pair_second_getservercert_keeps_first_session:
  "map_option map_id_sess
     (final_state (pair_seq demo_env
        [mk_request HTTP 1 (getservercert_request ''aaaa'' ''Alice'' ''CERT1'' demo_salt),
         mk_request HTTP 2 (getservercert_request ''aaaa'' ''Mallory'' ''CERT2'' ''ffeeddccbbaa99887766554433221100'')]
        empty_state))
   = Some [(''aaaa'', \<lparr> client = \<lparr> uniqueID = ''aaaa'', client_cert = ''CERT1'', client_name = ''Alice'' \<rparr>,
                       cipher_key = None, clienthash = [], serversecret = [], serverchallenge = [],
                       response = Either_left (Some 2), salt = ''ffeeddccbbaa99887766554433221100'' \<rparr>)]"
  by (simp add: pair_eval getservercert_request_def)


subsection \<open>Malformed requests\<close>

text \<open>
  The statement C5 makes fails on a phase-1 request with a 4-character salt on the
  standard-input path: the answer is 400 \<open>Salt too short\<close>, but the session has been put
  into the map, which was empty before.
\<close>

theorem pair_short_salt_counterexample:
  "map_option last_response
     (final_state (pair (demo_env\<lparr> PIN_STDIN := True \<rparr>)
        (mk_request HTTP 1 (getservercert_request ''aaaa'' ''Alice'' ''CERT1'' ''0011'')) empty_state))
   = Some (Some (1, [(''root.paired'', ''0''), (''root.<xmlattr>.status_code'', ''400''),
                     (''root.<xmlattr>.status_message'', ''Salt too short'')]))
   \<and> map_option map_id_sess
     (final_state (pair (demo_env\<lparr> PIN_STDIN := True \<rparr>)
        (mk_request HTTP 1 (getservercert_request ''aaaa'' ''Alice'' ''CERT1'' ''0011'')) empty_state))
   = Some [(''aaaa'', \<lparr> client = \<lparr> uniqueID = ''aaaa'', client_cert = ''CERT1'', client_name = ''Alice'' \<rparr>,
                       cipher_key = None, clienthash = [], serversecret = [], serverchallenge = [],
                       response = Either_empty, salt = ''0011'' \<rparr>)]
   \<and> map_id_sess empty_state = []"
  by (simp add: pair_eval getservercert_request_def)

lemma map_find_emplace: "map_find (map_emplace m k v) k \<noteq> None"
  by (auto simp: map_find_def map_emplace_def map_add_def)

lemma map_find_assign: "map_find m k \<noteq> None \<Longrightarrow> map_find (map_assign m k v) k = Some v"
  by (induction m) (auto simp: map_find_def map_assign_def)

lemma getservercert_short_salt:
  "length (salt sess) < 32 \<Longrightarrow>
     getservercert E sess t p =
       (sess, tree_put (tree_put (tree_put t ''root.paired'' ''0'') ''root.<xmlattr>.status_code'' ''400'')
                ''root.<xmlattr>.status_message'' ''Salt too short'')"
  by (simp add: getservercert_def tree_puts_def)

lemma last_response_respond: "last_response (respond rq t s) = Some (resp rq, t)"
  by (simp add: last_response_def respond_def)

lemma respond_fields:
  "map_id_sess (respond rq t s) = map_id_sess s"
  "client_root (respond rq t s) = client_root s"
  "cert_chain (respond rq t s) = cert_chain s"
  "file_state (respond rq t s) = file_state s"
  by (simp_all add: respond_def)

lemma set_sess_fields:
  "map_id_sess (set_sess k x s) = map_assign (map_id_sess s) k x"
  "client_root (set_sess k x s) = client_root s"
  "cert_chain (set_sess k x s) = cert_chain s"
  "file_state (set_sess k x s) = file_state s"
  by (simp_all add: set_sess_def)

lemma clear_otp_fields:
  "map_id_sess (clear_otp s) = map_id_sess s"
  "client_root (clear_otp s) = client_root s"
  "cert_chain (clear_otp s) = cert_chain s"
  "file_state (clear_otp s) = file_state s"
  by (simp_all add: clear_otp_def)

lemma pair_after_salt_short:
  assumes "length (salt ptr) < 32" "args rq ''otpauth'' \<noteq> None \<or> PIN_STDIN E"
    "map_find (map_id_sess s) u \<noteq> None"
  shows "\<exists>s' t. pair_after_salt E rq u ptr s = Returns s'
      \<and> last_response s' = Some (resp rq, t)
      \<and> tree_get t ''root.<xmlattr>.status_code'' = Some ''400''
      \<and> tree_get t ''root.<xmlattr>.status_message'' = Some ''Salt too short''
      \<and> tree_get t ''root.paired'' = Some ''0''
      \<and> client_root s' = client_root s \<and> cert_chain s' = cert_chain s
      \<and> file_state s' = file_state s
      \<and> (\<exists>x. map_find (map_id_sess s') u = Some x \<and> salt x = salt ptr)"
proof (cases "args rq ''otpauth''")
  case None
  with assms show ?thesis
    by (simp add: pair_after_salt_def getservercert_short_salt last_response_respond
        respond_fields set_sess_fields map_find_assign tree_get_put del: tree_put.simps)
next
  case (Some otpauth)
  with assms show ?thesis
    by (simp add: pair_after_salt_def getservercert_short_salt last_response_respond
        respond_fields set_sess_fields clear_otp_fields map_find_assign tree_get_put
        crypto_rand_def Let_def rename_client_def
        del: tree_put.simps)
qed


lemma map_assign_twice: "map_assign (map_assign m k x) k y = map_assign m k y"
  by (induction m) (auto simp: map_assign_def)

lemma map_assign_absent: "map_find m k = None \<Longrightarrow> map_assign m k x = m"
  by (induction m) (auto simp: map_assign_def map_find_def split: if_splits)

lemma map_assign_emplace:
  "map_assign (map_emplace m k new) k x =
     (case map_find m k of
        None \<Rightarrow> m @ [(k, x)]
      | Some e \<Rightarrow> map (\<lambda>kv. if fst kv = k then (k, x) else kv) m)"
proof (cases "map_find m k")
  case None
  then have "map_assign (m @ [(k, new)]) k x = m @ [(k, x)]"
    using map_assign_absent [OF None, of x] by (simp add: map_assign_def)
  with None show ?thesis
    by (simp add: map_emplace_def)
next
  case (Some e)
  then show ?thesis
    by (simp add: map_emplace_def map_assign_def)
qed

lemma pair_after_salt_short_exact:
  assumes "length (salt ptr) < 32"
  shows "pair_after_salt E rq u ptr s =
    (case args rq ''otpauth'' of
       None \<Rightarrow>
         if PIN_STDIN E
         then Returns (s\<lparr> map_id_sess := map_assign (map_id_sess s) u ptr,
                          responses := responses s @
                            [(resp rq, [(''root.paired'', ''0''), (''root.<xmlattr>.status_code'', ''400''),
                                        (''root.<xmlattr>.status_message'', ''Salt too short'')])] \<rparr>)
         else Returns (s\<lparr> map_id_sess := map_assign (map_id_sess s) u (ptr\<lparr> response := as_either rq \<rparr>) \<rparr>)
     | Some otpauth \<Rightarrow>
         if one_time_pin s = [] \<or> now rq - otp_creation_time s > OTP_EXPIRE_DURATION E
         then Returns (s\<lparr> map_id_sess := map_assign (map_id_sess s) u ptr,
                          one_time_pin := [], otp_passphrase := [], otp_device_name := [],
                          rand_calls := rand_calls s + 1,
                          responses := responses s @
                            [(resp rq, [(''root.<xmlattr>.status_code'', ''400''),
                                        (''root.<xmlattr>.status_message'', ''Salt too short''),
                                        (''root.paired'', ''0'')])] \<rparr>)
         else if hex E (hash E (one_time_pin s @ salt ptr @ otp_passphrase s)) = otpauth
         then Returns (s\<lparr> map_id_sess := map_assign (map_id_sess s) u
                            (if otp_device_name s \<noteq> []
                             then ptr\<lparr> client := (client ptr)\<lparr> client_name := otp_device_name s \<rparr> \<rparr>
                             else ptr),
                          one_time_pin := [], otp_passphrase := [], otp_device_name := [],
                          responses := responses s @
                            [(resp rq, [(''root.paired'', ''0''), (''root.<xmlattr>.status_code'', ''400''),
                                        (''root.<xmlattr>.status_message'', ''Salt too short'')])] \<rparr>)
         else Returns (s\<lparr> map_id_sess := map_assign (map_id_sess s) u ptr,
                          rand_calls := rand_calls s + 1,
                          responses := responses s @
                            [(resp rq, [(''root.paired'', ''0''), (''root.<xmlattr>.status_code'', ''400''),
                                        (''root.<xmlattr>.status_message'', ''Salt too short'')])] \<rparr>))"
proof -
  have g: "getservercert E x t q =
       (x, tree_put (tree_put (tree_put t ''root.paired'' ''0'') ''root.<xmlattr>.status_code'' ''400'')
                ''root.<xmlattr>.status_message'' ''Salt too short'')"
    if "salt x = salt ptr" for x t q
    using that assms by (simp add: getservercert_short_salt)
  show ?thesis
    by (simp add: pair_after_salt_def g set_sess_def respond_def clear_otp_def crypto_rand_def
        tree_puts_def Let_def split: option.splits)
qed

text \<open>
  C5, as amended. A phase-4 request for an existing session whose decoded
  \<open>clientpairingsecret\<close> has 16 bytes or fewer is answered with \<open>paired=0\<close>, 400 and
  \<open>Clientpairingsecret too short\<close>, and nothing changes but the written response. A
  phase-1 request that carries \<open>devicename\<close>, \<open>clientcert\<close> and a salt shorter than 32
  characters is answered with \<open>paired=0\<close>, 400 and \<open>Salt too short\<close> on the
  standard-input path and on the three OTP paths, and is suspended without an answer on
  the asynchronous path. On every path the entry under the \<open>uniqueid\<close> is the only entry
  of the session map that changes: a new session is inserted, or the stored one gets
  the new salt (and, where the OTP matches, the OTP's device name); every other session,
  the client store, the certificate chain and the state file stay as they are. Besides
  that, the OTP variables are cleared when no OTP is available or the OTP matches, and
  one random string is drawn when no OTP is available or the OTP does not match.
\<close>

theorem malformed_pair_requests:
  "(enable_pairing E \<and> args rq ''uniqueid'' = Some u \<and> args rq ''phrase'' = None
      \<and> args rq ''clientchallenge'' = None \<and> args rq ''serverchallengeresp'' = None
      \<and> args rq ''clientpairingsecret'' = Some v \<and> length (from_hex_vec E v) \<le> 16
      \<and> map_find (map_id_sess s) u = Some sess
    \<longrightarrow> pair E rq s = Returns (s\<lparr> responses := responses s @
            [(resp rq, [(''root.paired'', ''0''),
                        (''root.<xmlattr>.status_code'', ''400''),
                        (''root.<xmlattr>.status_message'', ''Clientpairingsecret too short'')])] \<rparr>))
   \<and> (enable_pairing E \<and> args rq ''uniqueid'' = Some u \<and> args rq ''phrase'' = Some ''getservercert''
      \<and> args rq ''devicename'' = Some dn \<and> args rq ''clientcert'' = Some cc
      \<and> args rq ''salt'' = Some sl \<and> length sl < 32
    \<longrightarrow> (let new = \<lparr> client = \<lparr> uniqueID = u, client_cert = from_hex_vec E cc,
                                 client_name = (if dn = ''roth'' then ''Legacy Moonlight Client'' else dn) \<rparr>,
                     cipher_key = None, clienthash = [], serversecret = [],
                     serverchallenge = [], response = Either_empty, salt = [] \<rparr>;
              ptr = (case map_find (map_id_sess s) u of None \<Rightarrow> new | Some e \<Rightarrow> e)\<lparr> salt := sl \<rparr>;
              store = (\<lambda>x. case map_find (map_id_sess s) u of
                              None \<Rightarrow> map_id_sess s @ [(u, x)]
                            | Some e \<Rightarrow> map (\<lambda>kv. if fst kv = u then (u, x) else kv) (map_id_sess s));
              short = [(''root.paired'', ''0''), (''root.<xmlattr>.status_code'', ''400''),
                       (''root.<xmlattr>.status_message'', ''Salt too short'')];
              available = (one_time_pin s \<noteq> []
                           \<and> \<not> now rq - otp_creation_time s > OTP_EXPIRE_DURATION E);
              matching = hex E (hash E (one_time_pin s @ sl @ otp_passphrase s))
          in (args rq ''otpauth'' = None \<and> PIN_STDIN E \<longrightarrow>
                pair E rq s = Returns (s\<lparr> map_id_sess := store ptr,
                                          responses := responses s @ [(resp rq, short)] \<rparr>))
           \<and> (args rq ''otpauth'' \<noteq> None \<and> \<not> available \<longrightarrow>
                pair E rq s = Returns (s\<lparr> map_id_sess := store ptr,
                                          one_time_pin := [], otp_passphrase := [], otp_device_name := [],
                                          rand_calls := rand_calls s + 1,
                                          responses := responses s @
                                            [(resp rq, [(''root.<xmlattr>.status_code'', ''400''),
                                                        (''root.<xmlattr>.status_message'', ''Salt too short''),
                                                        (''root.paired'', ''0'')])] \<rparr>))
           \<and> (args rq ''otpauth'' = Some matching \<and> available \<longrightarrow>
                pair E rq s = Returns (s\<lparr> map_id_sess :=
                                            store (if otp_device_name s \<noteq> []
                                                   then ptr\<lparr> client := (client ptr)\<lparr> client_name := otp_device_name s \<rparr> \<rparr>
                                                   else ptr),
                                          one_time_pin := [], otp_passphrase := [], otp_device_name := [],
                                          responses := responses s @ [(resp rq, short)] \<rparr>))
           \<and> (args rq ''otpauth'' \<noteq> None \<and> args rq ''otpauth'' \<noteq> Some matching \<and> available \<longrightarrow>
                pair E rq s = Returns (s\<lparr> map_id_sess := store ptr,
                                          rand_calls := rand_calls s + 1,
                                          responses := responses s @ [(resp rq, short)] \<rparr>))
           \<and> (args rq ''otpauth'' = None \<and> \<not> PIN_STDIN E \<longrightarrow>
                pair E rq s = Returns (s\<lparr> map_id_sess :=
                                            store (ptr\<lparr> response :=
                                                     (case tunnel rq of
                                                        HTTP \<Rightarrow> Either_left (Some (resp rq))
                                                      | HTTPS \<Rightarrow> Either_right (Some (resp rq))) \<rparr>) \<rparr>))))"
proof (intro conjI impI)
  assume "enable_pairing E \<and> args rq ''uniqueid'' = Some u \<and> args rq ''phrase'' = None
      \<and> args rq ''clientchallenge'' = None \<and> args rq ''serverchallengeresp'' = None
      \<and> args rq ''clientpairingsecret'' = Some v \<and> length (from_hex_vec E v) \<le> 16
      \<and> map_find (map_id_sess s) u = Some sess"
  then show "pair E rq s = Returns (s\<lparr> responses := responses s @
            [(resp rq, [(''root.paired'', ''0''),
                        (''root.<xmlattr>.status_code'', ''400''),
                        (''root.<xmlattr>.status_message'', ''Clientpairingsecret too short'')])] \<rparr>)"
    by (simp add: pair_def clientpairingsecret_def tree_puts_def respond_def)
next
  assume a: "enable_pairing E \<and> args rq ''uniqueid'' = Some u \<and> args rq ''phrase'' = Some ''getservercert''
      \<and> args rq ''devicename'' = Some dn \<and> args rq ''clientcert'' = Some cc
      \<and> args rq ''salt'' = Some sl \<and> length sl < 32"
  let ?new = "\<lparr> client = \<lparr> uniqueID = u, client_cert = from_hex_vec E cc,
                             client_name = (if dn = ''roth'' then ''Legacy Moonlight Client'' else dn) \<rparr>,
                 cipher_key = None, clienthash = [], serversecret = [],
                 serverchallenge = [], response = Either_empty, salt = [] \<rparr>"
  let ?ptr = "(case map_find (map_id_sess s) u of None \<Rightarrow> ?new | Some e \<Rightarrow> e)\<lparr> salt := sl \<rparr>"
  define ptr where "ptr = ?ptr"
  define m0 where "m0 = map_emplace (map_id_sess s) u ?new"
  have p: "pair E rq s = pair_after_salt E rq u ptr (s\<lparr> map_id_sess := map_assign m0 u ptr \<rparr>)"
    using a by (simp add: pair_def pair_getservercert_def Let_def ptr_def m0_def set_sess_def)
  have sl: "salt ptr = sl" "length (salt ptr) < 32"
    using a by (simp_all add: ptr_def)
  have st: "map_assign (map_assign m0 u ptr) u x =
      (case map_find (map_id_sess s) u of
         None \<Rightarrow> map_id_sess s @ [(u, x)]
       | Some e \<Rightarrow> map (\<lambda>kv. if fst kv = u then (u, x) else kv) (map_id_sess s))" for x
    unfolding map_assign_twice m0_def by (rule map_assign_emplace)
  show "let new = ?new;
              ptr = (case map_find (map_id_sess s) u of None \<Rightarrow> new | Some e \<Rightarrow> e)\<lparr> salt := sl \<rparr>;
              store = (\<lambda>x. case map_find (map_id_sess s) u of
                              None \<Rightarrow> map_id_sess s @ [(u, x)]
                            | Some e \<Rightarrow> map (\<lambda>kv. if fst kv = u then (u, x) else kv) (map_id_sess s));
              short = [(''root.paired'', ''0''), (''root.<xmlattr>.status_code'', ''400''),
                       (''root.<xmlattr>.status_message'', ''Salt too short'')];
              available = (one_time_pin s \<noteq> []
                           \<and> \<not> now rq - otp_creation_time s > OTP_EXPIRE_DURATION E);
              matching = hex E (hash E (one_time_pin s @ sl @ otp_passphrase s))
          in (args rq ''otpauth'' = None \<and> PIN_STDIN E \<longrightarrow>
                pair E rq s = Returns (s\<lparr> map_id_sess := store ptr,
                                          responses := responses s @ [(resp rq, short)] \<rparr>))
           \<and> (args rq ''otpauth'' \<noteq> None \<and> \<not> available \<longrightarrow>
                pair E rq s = Returns (s\<lparr> map_id_sess := store ptr,
                                          one_time_pin := [], otp_passphrase := [], otp_device_name := [],
                                          rand_calls := rand_calls s + 1,
                                          responses := responses s @
                                            [(resp rq, [(''root.<xmlattr>.status_code'', ''400''),
                                                        (''root.<xmlattr>.status_message'', ''Salt too short''),
                                                        (''root.paired'', ''0'')])] \<rparr>))
           \<and> (args rq ''otpauth'' = Some matching \<and> available \<longrightarrow>
                pair E rq s = Returns (s\<lparr> map_id_sess :=
                                            store (if otp_device_name s \<noteq> []
                                                   then ptr\<lparr> client := (client ptr)\<lparr> client_name := otp_device_name s \<rparr> \<rparr>
                                                   else ptr),
                                          one_time_pin := [], otp_passphrase := [], otp_device_name := [],
                                          responses := responses s @ [(resp rq, short)] \<rparr>))
           \<and> (args rq ''otpauth'' \<noteq> None \<and> args rq ''otpauth'' \<noteq> Some matching \<and> available \<longrightarrow>
                pair E rq s = Returns (s\<lparr> map_id_sess := store ptr,
                                          rand_calls := rand_calls s + 1,
                                          responses := responses s @ [(resp rq, short)] \<rparr>))
           \<and> (args rq ''otpauth'' = None \<and> \<not> PIN_STDIN E \<longrightarrow>
                pair E rq s = Returns (s\<lparr> map_id_sess :=
                                            store (ptr\<lparr> response :=
                                                     (case tunnel rq of
                                                        HTTP \<Rightarrow> Either_left (Some (resp rq))
                                                      | HTTPS \<Rightarrow> Either_right (Some (resp rq))) \<rparr>) \<rparr>))"
    unfolding Let_def p pair_after_salt_short_exact [OF sl(2)] ptr_def [symmetric]
    by (auto simp: st sl as_either_def split: option.splits)
qed


theorem malformed_pair_requests_witness:
  "pair demo_env (mk_request HTTP 1 [(''uniqueid'', ''aaaa''), (''clientpairingsecret'', ''0123'')])
      finishing_state
     = Returns (finishing_state\<lparr> responses :=
         [(1, [(''root.paired'', ''0''), (''root.<xmlattr>.status_code'', ''400''),
               (''root.<xmlattr>.status_message'', ''Clientpairingsecret too short'')])] \<rparr>)
   \<and> pair demo_env
         (mk_request HTTPS 3 (getservercert_request ''bbbb'' ''Bob'' ''CERT2'' ''0011''
                              @ [(''otpauth'', ''ABCD'')])) finishing_state
     = Returns (finishing_state\<lparr>
         map_id_sess := [(''aaaa'', finishing_session),
                         (''bbbb'', \<lparr> client = \<lparr> uniqueID = ''bbbb'', client_cert = ''CERT2'',
                                                client_name = ''Bob'' \<rparr>,
                                     cipher_key = None, clienthash = [], serversecret = [],
                                     serverchallenge = [], response = Either_empty, salt = ''0011'' \<rparr>)],
         rand_calls := 1,
         responses := [(3, [(''root.<xmlattr>.status_code'', ''400''),
                            (''root.<xmlattr>.status_message'', ''Salt too short''),
                            (''root.paired'', ''0'')])] \<rparr>)"
  using malformed_pair_requests [of demo_env
          "mk_request HTTP 1 [(''uniqueid'', ''aaaa''), (''clientpairingsecret'', ''0123'')]"
          "''aaaa''" "''0123''" finishing_state finishing_session]
    malformed_pair_requests [of demo_env
          "mk_request HTTPS 3 (getservercert_request ''bbbb'' ''Bob'' ''CERT2'' ''0011'' @ [(''otpauth'', ''ABCD'')])"
          "''bbbb''" _ finishing_state _ "''Bob''" "''CERT2''" "''0011''"]
  by (simp add: mk_request_def demo_env_def getservercert_request_def finishing_state_def
      empty_state_def map_find_def Let_def)

subsection \<open>Phase 4\<close>




lemma import_legacy_map: "map_id_sess (snd (import_legacy E els s)) = map_id_sess s"
proof (induction els arbitrary: s)
  case Nil
  show ?case by simp
next
  case (Cons el els)
  obtain rest s2 where r: "import_legacy E els (s\<lparr> generated := generated s + 1 \<rparr>) = (rest, s2)"
    by (cases "import_legacy E els (s\<lparr> generated := generated s + 1 \<rparr>)")
  from Cons.IH [of "s\<lparr> generated := generated s + 1 \<rparr>"] r have "map_id_sess s2 = map_id_sess s"
    by simp
  with r show ?case
    by (simp add: gen_uuid_def)
qed

lemma load_state_map: "map_id_sess (load_state E s) = map_id_sess s"
proof (cases "file_state s")
  case (Json root)
  show ?thesis
  proof (cases "f_devices root")
    case None
    with Json show ?thesis
      by (simp add: load_state_def gen_uuid_def Let_def split: option.splits)
  next
    case (Some ds)
    obtain legacy s1 where r: "import_legacy E (concat ds) s = (legacy, s1)"
      by (cases "import_legacy E (concat ds) s")
    from import_legacy_map [of E "concat ds" s] r have "map_id_sess s1 = map_id_sess s"
      by simp
    with Json Some r show ?thesis
      by (simp add: load_state_def gen_uuid_def Let_def split: option.splits)
  qed
qed (simp_all add: load_state_def gen_uuid_def)

lemma save_state_map: "map_id_sess (save_state rq s) = map_id_sess s"
  by (simp add: save_state_def)

lemma add_authorized_client_map: "map_id_sess (add_authorized_client E rq nc s) = map_id_sess s"
  by (simp add: add_authorized_client_def Let_def load_state_map save_state_map)





subsection \<open>\<open>pin\<close> and the session it leaves behind\<close>

text \<open>
  The statement C10 makes fails on a session whose salt is shorter than 32 characters,
  which \<open>pair\<close> stores on the standard-input path: \<open>pin\<close> with a 4-digit PIN and an
  empty name returns false, the key is not derived, and the state is the one before.
\<close>

theorem pin_short_salt_counterexample:
  "pair (demo_env\<lparr> PIN_STDIN := True \<rparr>)
      (mk_request HTTP 1 (getservercert_request ''aaaa'' ''Alice'' ''CERT1'' ''0011'')) empty_state
     = Returns short_salt_state
   \<and> map_id_sess short_salt_state \<noteq> []
   \<and> length ''1234'' = 4 \<and> list_all isdigit ''1234''
   \<and> pin (demo_env\<lparr> PIN_STDIN := True \<rparr>) ''1234'' [] short_salt_state = (False, short_salt_state)
   \<and> map_id_sess short_salt_state = [(''aaaa'', demo_session\<lparr> salt := ''0011'' \<rparr>)]
   \<and> cipher_key (demo_session\<lparr> salt := ''0011'' \<rparr>) = None"
  by (simp add: pair_eval getservercert_request_def short_salt_state_def pin_def isdigit_def)

text \<open>
  C10, as amended. With a non-empty map and a 4-digit PIN, \<open>pin\<close> changes the first
  session before it looks at the suspended response: the key is derived anew from salt
  and PIN when the salt has at least 32 characters (and left as it is otherwise), and
  the client name is overwritten when \<open>name\<close> is not empty. Only then the handle is
  tested: with a handle the tree is written to it, the handle is reset and the result
  is true; without one the result is false and nothing is written. So \<open>pin\<close> returns
  false with the session already changed whenever there is no handle and the new name
  or the derived key differs from what the session had: a false result does not mean
  that the session is unchanged.
\<close>

theorem pin_mutates_before_response_check:
  "map_id_sess s = (k, sess) # rest \<Longrightarrow> length p = 4 \<Longrightarrow> list_all isdigit p \<Longrightarrow>
     pin E p nm s =
       (let derived = (32 \<le> length (salt sess));
            key = gen_aes_key E (from_hex_16 E (take 32 (salt sess))) p;
            sess1 = sess\<lparr> cipher_key := (if derived then Some key else cipher_key sess),
                          client := (if nm \<noteq> [] then (client sess)\<lparr> client_name := nm \<rparr>
                                     else client sess) \<rparr>;
            tree = (if derived
                    then [(''root.paired'', ''1''), (''root.plaincert'', hex_vec E (servercert E)),
                          (''root.<xmlattr>.status_code'', ''200'')]
                    else [(''root.paired'', ''0''), (''root.<xmlattr>.status_code'', ''400''),
                          (''root.<xmlattr>.status_message'', ''Salt too short'')])
        in case pending_handle (response sess) of
             None \<Rightarrow> (False, s\<lparr> map_id_sess := (k, sess1) # rest \<rparr>)
           | Some h \<Rightarrow> (True, s\<lparr> map_id_sess := (k, sess1\<lparr> response := Either_left None \<rparr>) # rest,
                                responses := responses s @ [(h, tree)] \<rparr>))
     \<and> (pending_handle (response sess) = None
          \<and> (nm \<noteq> [] \<and> client_name (client sess) \<noteq> nm
               \<or> 32 \<le> length (salt sess)
                  \<and> cipher_key sess \<noteq> Some (gen_aes_key E (from_hex_16 E (take 32 (salt sess))) p))
        \<longrightarrow> fst (pin E p nm s) = False \<and> snd (pin E p nm s) \<noteq> s)"
proof -
  assume a: "map_id_sess s = (k, sess) # rest" "length p = 4" "list_all isdigit p"
  have r: "x\<lparr> cipher_key := cipher_key x \<rparr> = x" "x\<lparr> client := client x \<rparr> = x" for x :: pair_session_t
    by simp_all
  have eq: "pin E p nm s =
       (let derived = (32 \<le> length (salt sess));
            key = gen_aes_key E (from_hex_16 E (take 32 (salt sess))) p;
            sess1 = sess\<lparr> cipher_key := (if derived then Some key else cipher_key sess),
                          client := (if nm \<noteq> [] then (client sess)\<lparr> client_name := nm \<rparr>
                                     else client sess) \<rparr>;
            tree = (if derived
                    then [(''root.paired'', ''1''), (''root.plaincert'', hex_vec E (servercert E)),
                          (''root.<xmlattr>.status_code'', ''200'')]
                    else [(''root.paired'', ''0''), (''root.<xmlattr>.status_code'', ''400''),
                          (''root.<xmlattr>.status_message'', ''Salt too short'')])
        in case pending_handle (response sess) of
             None \<Rightarrow> (False, s\<lparr> map_id_sess := (k, sess1) # rest \<rparr>)
           | Some h \<Rightarrow> (True, s\<lparr> map_id_sess := (k, sess1\<lparr> response := Either_left None \<rparr>) # rest,
                                responses := responses s @ [(h, tree)] \<rparr>))"
    using a
    by (simp add: pin_accepts rename_client_def getservercert_def tree_puts_def Let_def
        split: option.splits)
  have neq: "fst (pin E p nm s) = False \<and> snd (pin E p nm s) \<noteq> s"
    if h: "pending_handle (response sess) = None"
      and d: "nm \<noteq> [] \<and> client_name (client sess) \<noteq> nm
               \<or> 32 \<le> length (salt sess)
                  \<and> cipher_key sess \<noteq> Some (gen_aes_key E (from_hex_16 E (take 32 (salt sess))) p)"
  proof -
    let ?sess1 = "sess\<lparr> cipher_key := (if 32 \<le> length (salt sess)
                                        then Some (gen_aes_key E (from_hex_16 E (take 32 (salt sess))) p)
                                        else cipher_key sess),
                          client := (if nm \<noteq> [] then (client sess)\<lparr> client_name := nm \<rparr>
                                     else client sess) \<rparr>"
    have p: "pin E p nm s = (False, s\<lparr> map_id_sess := (k, ?sess1) # rest \<rparr>)"
      using eq h by (simp add: Let_def)
    have "?sess1 \<noteq> sess"
    proof
      assume e: "?sess1 = sess"
      then have "cipher_key ?sess1 = cipher_key sess" "client_name (client ?sess1) = client_name (client sess)"
        by simp_all
      with d show False
        by (auto split: if_splits)
    qed
    then have "map_id_sess (s\<lparr> map_id_sess := (k, ?sess1) # rest \<rparr>) \<noteq> map_id_sess s"
      using a(1) by simp
    then have "s\<lparr> map_id_sess := (k, ?sess1) # rest \<rparr> \<noteq> s"
      by metis
    with p show ?thesis
      by simp
  qed
  from eq neq show ?thesis
    by blast
qed

theorem pin_mutates_before_response_check_witness:
  "map_id_sess idle_state = [(''aaaa'', demo_session)] \<and> length ''1234'' = 4 \<and> list_all isdigit ''1234''
   \<and> pin demo_env ''1234'' ''Bob'' idle_state
       = (False, idle_state\<lparr> map_id_sess :=
            [(''aaaa'', demo_session\<lparr> cipher_key := Some ''0011223344556677'',
                                      client := \<lparr> uniqueID = ''aaaa'', client_cert = ''CERT1'',
                                                  client_name = ''Bob'' \<rparr> \<rparr>)] \<rparr>)
   \<and> snd (pin demo_env ''1234'' ''Bob'' idle_state) \<noteq> idle_state"
proof -
  have h1: "map_id_sess idle_state = (''aaaa'', demo_session) # []"
    by (simp add: idle_state_def empty_state_def)
  have h2: "length ''1234'' = 4"
    by simp
  have h3: "list_all isdigit ''1234''"
    by (simp add: isdigit_def)
  show ?thesis
    using h1 h2 h3 pin_mutates_before_response_check [OF h1 h2 h3, of demo_env "''Bob''"]
    by (simp add: demo_session_def demo_salt_def demo_env_def gen_aes_key_def
        pending_handle_def Let_def idle_state_def empty_state_def)
qed

subsection \<open>Invariants of the session map\<close>

text \<open>
  \<open>pair\<close> keeps the keys of the session map distinct (the map is a map), and keeps every
  session under the \<open>uniqueID\<close> of its client, whenever it leaves a state behind.
\<close>

lemma keys_map_assign: "map fst (map_assign m k v) = map fst m"
  by (induction m) (auto simp: map_assign_def)

lemma keys_map_emplace: "distinct (map fst m) \<Longrightarrow> distinct (map fst (map_emplace m k v))"
  by (auto simp: map_emplace_def map_find_def map_of_eq_None_iff)

lemma keys_map_erase: "distinct (map fst m) \<Longrightarrow> distinct (map fst (map_erase m k))"
  by (simp add: map_erase_def distinct_map_filter)

lemma keys_set_sess: "map fst (map_id_sess (set_sess k x s)) = map fst (map_id_sess s)"
  by (simp add: set_sess_def keys_map_assign)

lemma pair_after_salt_keys:
  "final_state (pair_after_salt E rq u ptr s) = Some s' \<Longrightarrow>
     map fst (map_id_sess s') = map fst (map_id_sess s)"
  by (auto simp: pair_after_salt_def final_state_def Let_def respond_fields keys_set_sess
      clear_otp_fields crypto_rand_def set_sess_def keys_map_assign
      split: option.splits if_splits prod.splits)

lemma pair_getservercert_keys:
  assumes "distinct (map fst (map_id_sess s))" "final_state (pair_getservercert E rq u s) = Some s'"
  shows "distinct (map fst (map_id_sess s'))"
proof -
  have e: "distinct (map fst (map_emplace (map_id_sess s) u x))" for x
    using assms(1) by (rule keys_map_emplace)
  show ?thesis
  proof (cases "args rq ''devicename'' \<noteq> None \<and> args rq ''clientcert'' \<noteq> None
                \<and> args rq ''salt'' \<noteq> None")
    case True
    then obtain ptr x where
      "pair_getservercert E rq u s =
         pair_after_salt E rq u ptr
           (set_sess u ptr (s\<lparr> map_id_sess := map_emplace (map_id_sess s) u x \<rparr>))"
      by (auto simp: pair_getservercert_def Let_def)
    with assms(2) e [of x] pair_after_salt_keys show ?thesis
      by (simp add: keys_set_sess)
  next
    case False
    with assms e show ?thesis
      by (auto simp: pair_getservercert_def final_state_def Let_def respond_fields
          split: option.splits)
  qed
qed

lemma clientchallenge_keys:
  "clientchallenge E rq sess t s = Returns (sess1, t1, s1) \<Longrightarrow> map_id_sess s1 = map_id_sess s"
  "clientchallenge E rq sess t s = Throws n (sess1, t1, s1) \<Longrightarrow> map_id_sess s1 = map_id_sess s"
  by (auto simp: clientchallenge_def crypto_rand_def Let_def split: option.splits)

lemma clientpairingsecret_keys:
  assumes "distinct (map fst (map_id_sess s))"
  shows "clientpairingsecret E rq sess t s = Returns (t1, s1) \<Longrightarrow> distinct (map fst (map_id_sess s1))"
    and "clientpairingsecret E rq sess t s = Throws n (t1, s1) \<Longrightarrow> distinct (map fst (map_id_sess s1))"
  using assms
  by (auto simp: clientpairingsecret_def Let_def gen_uuid_def add_authorized_client_map keys_map_erase
      split: option.splits if_splits)

lemma pair_keeps_keys_distinct:
  assumes "distinct (map fst (map_id_sess s))" "final_state (pair E rq s) = Some s'"
  shows "distinct (map fst (map_id_sess s'))"
proof (cases "enable_pairing E \<and> args rq ''uniqueid'' \<noteq> None \<and> args rq ''phrase'' = Some ''getservercert''")
  case True
  then obtain u where "pair E rq s = pair_getservercert E rq u s"
    by (auto simp: pair_def)
  with assms show ?thesis
    by (simp add: pair_getservercert_keys)
next
  case False
  with assms show ?thesis
    by (auto simp: pair_def final_state_def respond_fields keys_set_sess Let_def
        dest: clientchallenge_keys clientpairingsecret_keys [rotated]
        split: option.splits if_splits outcome.splits prod.splits)
qed

lemma keyed_find: "sess_keyed m \<Longrightarrow> map_find m k = Some x \<Longrightarrow> uniqueID (client x) = k"
  by (induction m) (auto simp: sess_keyed_def map_find_def split: if_splits)

lemma keyed_assign: "sess_keyed m \<Longrightarrow> uniqueID (client x) = k \<Longrightarrow> sess_keyed (map_assign m k x)"
  by (induction m) (auto simp: sess_keyed_def map_assign_def)

lemma keyed_emplace: "sess_keyed m \<Longrightarrow> uniqueID (client x) = k \<Longrightarrow> sess_keyed (map_emplace m k x)"
  by (auto simp: sess_keyed_def map_emplace_def)

lemma keyed_erase: "sess_keyed m \<Longrightarrow> sess_keyed (map_erase m k)"
  by (induction m) (auto simp: sess_keyed_def map_erase_def)

lemma getservercert_uniqueID:
  "getservercert E sess t p = (sess1, t1) \<Longrightarrow> uniqueID (client sess1) = uniqueID (client sess)"
  by (auto simp: getservercert_def Let_def split: if_splits)

lemma pair_after_salt_keyed:
  assumes "sess_keyed (map_id_sess s)" "uniqueID (client ptr) = u"
    "final_state (pair_after_salt E rq u ptr s) = Some s'"
  shows "sess_keyed (map_id_sess s')"
proof -
  have k: "sess_keyed (map_assign (map_id_sess s) (uniqueID (client ptr)) x)"
    if "uniqueID (client x) = uniqueID (client ptr)" for x
    using assms(1) that by (simp add: keyed_assign)
  show ?thesis
    using assms(2,3)
    by (auto simp: pair_after_salt_def final_state_def Let_def respond_fields set_sess_fields
        clear_otp_fields crypto_rand_def
        intro!: k dest!: getservercert_uniqueID
        split: option.splits if_splits prod.splits)
qed

lemma pair_getservercert_keyed:
  assumes "sess_keyed (map_id_sess s)" "final_state (pair_getservercert E rq u s) = Some s'"
  shows "sess_keyed (map_id_sess s')"
proof (cases "args rq ''devicename'' \<noteq> None \<and> args rq ''clientcert'' \<noteq> None
                \<and> args rq ''salt'' \<noteq> None")
  case True
  then obtain dn cc sl where a: "args rq ''devicename'' = Some dn" "args rq ''clientcert'' = Some cc"
      "args rq ''salt'' = Some sl"
    by auto
  let ?sess = "\<lparr> client = \<lparr> uniqueID = u, client_cert = from_hex_vec E cc,
                             client_name = (if dn = ''roth'' then ''Legacy Moonlight Client'' else dn) \<rparr>,
                 cipher_key = None, clienthash = [], serversecret = [],
                 serverchallenge = [], response = Either_empty, salt = [] \<rparr>"
  let ?ptr = "(case map_find (map_id_sess s) u of None \<Rightarrow> ?sess | Some existing \<Rightarrow> existing)\<lparr> salt := sl \<rparr>"
  let ?s2 = "set_sess u ?ptr (s\<lparr> map_id_sess := map_emplace (map_id_sess s) u ?sess \<rparr>)"
  have p: "pair_getservercert E rq u s = pair_after_salt E rq u ?ptr ?s2"
    using a by (simp add: pair_getservercert_def Let_def)
  have u: "uniqueID (client ?ptr) = u"
    using assms(1) by (auto simp: keyed_find split: option.splits)
  have "sess_keyed (map_id_sess ?s2)"
    using assms(1) u by (simp add: set_sess_fields keyed_assign keyed_emplace)
  from pair_after_salt_keyed [OF this u] assms(2) show ?thesis
    unfolding p by simp
next
  case False
  with assms show ?thesis
    by (auto simp: pair_getservercert_def final_state_def Let_def respond_fields keyed_emplace
        split: option.splits)
qed

lemma clientchallenge_keeps:
  "clientchallenge E rq sess t s = Returns (sess1, t1, s1) \<Longrightarrow>
     map_id_sess s1 = map_id_sess s \<and> uniqueID (client sess1) = uniqueID (client sess)"
  "clientchallenge E rq sess t s = Throws n (sess1, t1, s1) \<Longrightarrow>
     map_id_sess s1 = map_id_sess s \<and> uniqueID (client sess1) = uniqueID (client sess)"
  by (auto simp: clientchallenge_def crypto_rand_def Let_def split: option.splits)

lemma serverchallengeresp_uniqueID:
  "serverchallengeresp E rq sess t = Returns (sess1, t1) \<Longrightarrow> uniqueID (client sess1) = uniqueID (client sess)"
  "serverchallengeresp E rq sess t = Throws n (sess1, t1) \<Longrightarrow> uniqueID (client sess1) = uniqueID (client sess)"
  by (auto simp: serverchallengeresp_def Let_def split: option.splits)

lemma clientpairingsecret_keyed:
  assumes "sess_keyed (map_id_sess s)"
  shows "clientpairingsecret E rq sess t s = Returns (t1, s1) \<Longrightarrow> sess_keyed (map_id_sess s1)"
    and "clientpairingsecret E rq sess t s = Throws n (t1, s1) \<Longrightarrow> sess_keyed (map_id_sess s1)"
  using assms
  by (auto simp: clientpairingsecret_def Let_def gen_uuid_def add_authorized_client_map keyed_erase
      split: option.splits if_splits)

lemma pair_keeps_sessions_keyed:
  assumes "sess_keyed (map_id_sess s)" "final_state (pair E rq s) = Some s'"
  shows "sess_keyed (map_id_sess s')"
proof (cases "enable_pairing E \<and> args rq ''uniqueid'' \<noteq> None \<and> args rq ''phrase'' = Some ''getservercert''")
  case True
  then obtain u where "pair E rq s = pair_getservercert E rq u s"
    by (auto simp: pair_def)
  with assms show ?thesis
    by (simp add: pair_getservercert_keyed)
next
  case False
  have k: "sess_keyed (map_assign (map_id_sess s) u x)" if "uniqueID (client x) = u" for x u
    using assms(1) that by (simp add: keyed_assign)
  from False assms show ?thesis
    by (auto simp: pair_def final_state_def respond_fields set_sess_fields Let_def
        intro!: k
        dest!: clientchallenge_keeps serverchallengeresp_uniqueID
        dest: clientpairingsecret_keyed [rotated] keyed_find
        split: option.splits if_splits outcome.splits prod.splits)
qed

end
